theory Spec2Isabelle
  imports Complex_Main
begin

section \<open>Python values, exceptions and strings\<close>

text \<open>
  The ingestion pipeline of the repository is embedded function by function. A Python
  exception is a value of type \<open>exn\<close> on the left of a sum; a function that can raise
  returns \<open>exn + 'a\<close>. Strings are lists of 8-bit characters, so the model covers the
  code points below 256.
\<close>

datatype exn = ValueError | IndexError | StopIteration | ValidationError | IntegrityError

text \<open>
  A Python float is a rational, an infinity or NaN (every finite double is a rational;
  the two zeros compare equal and are identified).
\<close>

datatype pyfloat = Fin rat | PosInf | NegInf | NaN

fun float_neg :: "pyfloat \<Rightarrow> pyfloat" where
  "float_neg (Fin q) = Fin (- q)"
| "float_neg PosInf = NegInf"
| "float_neg NegInf = PosInf"
| "float_neg NaN = NaN"

text \<open>The comparison \<open>v < 0\<close> on floats: false on NaN.\<close>

fun float_lt0 :: "pyfloat \<Rightarrow> bool" where
  "float_lt0 (Fin q) = (q < 0)"
| "float_lt0 NegInf = True"
| "float_lt0 PosInf = False"
| "float_lt0 NaN = False"

text \<open>The Python objects a normalizer can be handed.\<close>

datatype pyobj = PyNone | PyStr string | PyBool bool | PyInt int | PyFloat pyfloat
  | PyList "pyobj list"

fun truthy :: "pyobj \<Rightarrow> bool" where
  "truthy PyNone = False"
| "truthy (PyStr s) = (s \<noteq> [])"
| "truthy (PyBool b) = b"
| "truthy (PyInt i) = (i \<noteq> 0)"
| "truthy (PyFloat f) = (f \<noteq> Fin 0)"
| "truthy (PyList xs) = (xs \<noteq> [])"

fun isinstance_str :: "pyobj \<Rightarrow> bool" where
  "isinstance_str (PyStr s) = True"
| "isinstance_str v = False"

text \<open>Truthiness of an \<open>Optional[str]\<close>: None and the empty string are false.\<close>

fun truthy_opt :: "string option \<Rightarrow> bool" where
  "truthy_opt None = False"
| "truthy_opt (Some s) = (s \<noteq> [])"

text \<open>\<open>str.isspace\<close> on the code points below 256, and \<open>str.strip()\<close>.\<close>

definition py_isspace :: "char \<Rightarrow> bool" where
  "py_isspace c = (c \<in> set [CHR 0x09, CHR 0x0A, CHR 0x0B, CHR 0x0C, CHR 0x0D,
     CHR 0x1C, CHR 0x1D, CHR 0x1E, CHR 0x1F, CHR 0x20, CHR 0x85, CHR 0xA0])"

definition strip :: "string \<Rightarrow> string" where
  "strip s = rev (dropWhile py_isspace (rev (dropWhile py_isspace s)))"

definition isdigit :: "char \<Rightarrow> bool" where
  "isdigit c = (c \<in> set ''0123456789'')"

definition digit_val :: "char \<Rightarrow> nat" where
  "digit_val c = length (takeWhile (\<lambda>d. d \<noteq> c) ''0123456789'')"

definition digit_chr :: "nat \<Rightarrow> char" where
  "digit_chr k = ''0123456789'' ! k"

text \<open>\<open>int(s)\<close> on a string of decimal digits, surrounding whitespace ignored.\<close>

definition int_of_digits :: "string \<Rightarrow> nat" where
  "int_of_digits s = foldl (\<lambda>a c. 10 * a + digit_val c) 0 (strip s)"

definition ascii_lower :: "char \<Rightarrow> char" where
  "ascii_lower c =
     (case map_of (zip ''ABCDEFGHIJKLMNOPQRSTUVWXYZ'' ''abcdefghijklmnopqrstuvwxyz'') c of
        Some l \<Rightarrow> l | None \<Rightarrow> c)"

text \<open>Comparison of two strings with \<open><\<close>: lexicographic on the code points.\<close>

fun str_lt :: "string \<Rightarrow> string \<Rightarrow> bool" where
  "str_lt [] [] = False"
| "str_lt [] (y # ys) = True"
| "str_lt (x # xs) [] = False"
| "str_lt (x # xs) (y # ys) =
     ((of_char x :: nat) < of_char y \<or> (x = y \<and> str_lt xs ys))"

text \<open>List indexing \<open>row[i]\<close> for \<open>i \<ge> 0\<close>, and the slice \<open>row[i:j]\<close>.\<close>

definition index :: "'a list \<Rightarrow> nat \<Rightarrow> exn + 'a" where
  "index xs i = (if i < length xs then Inr (xs ! i) else Inl IndexError)"

definition slice :: "nat \<Rightarrow> nat \<Rightarrow> 'a list \<Rightarrow> 'a list" where
  "slice i j xs = take (j - i) (drop i xs)"

definition then_exn :: "exn + 'a \<Rightarrow> ('a \<Rightarrow> exn + 'b) \<Rightarrow> exn + 'b" where
  "then_exn x f = (case x of Inl e \<Rightarrow> Inl e | Inr v \<Rightarrow> f v)"

section \<open>schemas/models.py: the enumerations\<close>

datatype FileType = ASSY | FABCUT | LP | SEWDC | SEWFB

fun FileType_value :: "FileType \<Rightarrow> string" where
  "FileType_value ASSY = ''Assy''"
| "FileType_value FABCUT = ''Fabcut''"
| "FileType_value LP = ''LP''"
| "FileType_value SEWDC = ''SEW-DC''"
| "FileType_value SEWFB = ''SEW-FB''"

definition db_value :: "FileType \<Rightarrow> string" where
  "db_value self = (if self = SEWDC then ''DC-Sew'' else FileType_value self)"

text \<open>
  Validation of a field annotated \<open>FileType\<close>: the input string is looked up among the
  members' values, as the enumeration's constructor does.
\<close>

definition FileType_of_value :: "string \<Rightarrow> FileType option" where
  "FileType_of_value s = find (\<lambda>m. FileType_value m = s) [ASSY, FABCUT, LP, SEWDC, SEWFB]"

datatype ProcessingStatus = SUCCESS | ERROR | DUPLICATE | SKIPPED

fun ProcessingStatus_value :: "ProcessingStatus \<Rightarrow> string" where
  "ProcessingStatus_value SUCCESS = ''success''"
| "ProcessingStatus_value ERROR = ''error''"
| "ProcessingStatus_value DUPLICATE = ''duplicate''"
| "ProcessingStatus_value SKIPPED = ''skipped''"

section \<open>Library behaviour the date parser relies on\<close>

subsection \<open>Regular expressions\<close>

text \<open>
  The fragment of Python's \<open>re\<close> that \<open>parse_datetime\<close> and \<open>datetime.strptime\<close> use:
  character classes, sequence, ordered alternative, a greedy star over one class, and
  named groups. \<open>rx_match\<close> lists every way the expression matches a prefix of the
  input, in the order the backtracking matcher tries them; the first is the match
  \<open>re.match\<close> returns.
\<close>

datatype cclass = CChr char | CChrI char | CSet string | CSpace

fun cc :: "cclass \<Rightarrow> char \<Rightarrow> bool" where
  "cc (CChr a) c = (c = a)"
| "cc (CChrI a) c = (ascii_lower c = ascii_lower a)"
| "cc (CSet cs) c = (c \<in> set cs)"
| "cc CSpace c = py_isspace c"

datatype rx = Eps | Sym cclass | Seq rx rx | Alt rx rx | Star cclass | Grp string rx

type_synonym captures = "(string \<times> string) list"

fun rx_match :: "rx \<Rightarrow> string \<Rightarrow> (captures \<times> string) list" where
  "rx_match Eps s = [([], s)]"
| "rx_match (Sym k) s = (case s of [] \<Rightarrow> [] | c # cs \<Rightarrow> if cc k c then [([], cs)] else [])"
| "rx_match (Seq a b) s =
     concat (map (\<lambda>(c1, r1). map (\<lambda>(c2, r2). (c1 @ c2, r2)) (rx_match b r1)) (rx_match a s))"
| "rx_match (Alt a b) s = rx_match a s @ rx_match b s"
| "rx_match (Star k) s =
     map (\<lambda>n. ([], drop n s)) (rev [0 ..< Suc (length (takeWhile (cc k) s))])"
| "rx_match (Grp g a) s =
     map (\<lambda>(c, r). ((g, take (length s - length r) s) # c, r)) (rx_match a s)"

definition re_match :: "rx \<Rightarrow> string \<Rightarrow> (captures \<times> string) option" where
  "re_match r s = (case rx_match r s of [] \<Rightarrow> None | m # ms \<Rightarrow> Some m)"

text \<open>\<open>re.search\<close>: the match at the leftmost position that has one.\<close>

fun re_search :: "rx \<Rightarrow> string \<Rightarrow> (captures \<times> string) option" where
  "re_search r [] = re_match r []"
| "re_search r (c # cs) =
     (case re_match r (c # cs) of Some m \<Rightarrow> Some m | None \<Rightarrow> re_search r cs)"

definition group :: "captures \<Rightarrow> string \<Rightarrow> string option" where
  "group caps g = map_of caps g"

definition digit :: rx where
  "digit = Sym (CSet ''0123456789'')"

definition seqs :: "rx list \<Rightarrow> rx" where
  "seqs rs = foldr Seq rs Eps"

definition alts :: "rx \<Rightarrow> rx list \<Rightarrow> rx" where
  "alts r rs = foldr (\<lambda>a b. Alt b a) (rev rs) r"

text \<open>A literal string, case-sensitive, and the same ignoring case.\<close>

definition lit :: "string \<Rightarrow> rx" where
  "lit s = seqs (map (\<lambda>c. Sym (CChr c)) s)"

definition liti :: "string \<Rightarrow> rx" where
  "liti s = seqs (map (\<lambda>c. Sym (CChrI c)) s)"

text \<open>\<open>r{1,2}\<close>, greedy.\<close>

definition rep12 :: "rx \<Rightarrow> rx" where
  "rep12 r = Seq r (Alt r Eps)"

subsection \<open>datetime.strptime and strftime\<close>

record datetime =
  dt_year :: nat
  dt_month :: nat
  dt_day :: nat
  dt_hour :: nat
  dt_minute :: nat
  dt_second :: nat
  dt_microsecond :: nat

definition month_abbr :: "string list" where
  "month_abbr = [''jan'', ''feb'', ''mar'', ''apr'', ''may'', ''jun'',
                 ''jul'', ''aug'', ''sep'', ''oct'', ''nov'', ''dec'']"

text \<open>
  The regular expression of each format directive the repository uses, as the
  standard library's \<open>_strptime.TimeRE\<close> defines them (C locale). Another directive is
  outside the model and treated as a bad directive.
\<close>

definition directive_rx :: "char \<Rightarrow> rx option" where
  "directive_rx d =
    (if d = CHR ''d'' then Some (Grp ''d''
        (alts (Seq (lit ''3'') (Sym (CSet ''01'')))
           [Seq (Sym (CSet ''12'')) digit,
            Seq (lit ''0'') (Sym (CSet ''123456789'')),
            Sym (CSet ''123456789''),
            Seq (lit '' '') (Sym (CSet ''123456789''))]))
     else if d = CHR ''f'' then Some (Grp ''f''
        (Seq digit (Alt (Seq digit (Alt (Seq digit (Alt (Seq digit (Alt (Seq digit
           (Alt digit Eps)) Eps)) Eps)) Eps)) Eps)))
     else if d = CHR ''H'' then Some (Grp ''H''
        (alts (Seq (lit ''2'') (Sym (CSet ''0123''))) [Seq (Sym (CSet ''01'')) digit, digit]))
     else if d = CHR ''I'' then Some (Grp ''I''
        (alts (Seq (lit ''1'') (Sym (CSet ''012'')))
           [Seq (lit ''0'') (Sym (CSet ''123456789'')), Sym (CSet ''123456789'')]))
     else if d = CHR ''m'' then Some (Grp ''m''
        (alts (Seq (lit ''1'') (Sym (CSet ''012'')))
           [Seq (lit ''0'') (Sym (CSet ''123456789'')), Sym (CSet ''123456789'')]))
     else if d = CHR ''M'' then Some (Grp ''M''
        (alts (Seq (Sym (CSet ''012345'')) digit) [digit]))
     else if d = CHR ''S'' then Some (Grp ''S''
        (alts (Seq (lit ''6'') (Sym (CSet ''01''))) [Seq (Sym (CSet ''012345'')) digit, digit]))
     else if d = CHR ''y'' then Some (Grp ''y'' (Seq digit digit))
     else if d = CHR ''Y'' then Some (Grp ''Y'' (seqs [digit, digit, digit, digit]))
     else if d = CHR ''b'' then Some (Grp ''b''
        (alts (liti (hd month_abbr)) (map liti (tl month_abbr))))
     else if d = CHR ''p'' then Some (Grp ''p'' (alts (liti ''am'') [liti ''pm'']))
     else None)"

text \<open>
  The expression of a format: a directive after \<open>%\<close>, \<open>\s+\<close> for a run of whitespace,
  every other character itself; the whole is matched ignoring case.
\<close>

fun fmt_rx :: "string \<Rightarrow> rx option" where
  "fmt_rx [] = Some Eps"
| "fmt_rx [c] =
     (if c = CHR ''%'' then None
      else if py_isspace c then Some (Seq (Sym CSpace) (Star CSpace))
      else Some (Sym (CChrI c)))"
| "fmt_rx (c # d # rest) =
     (if c = CHR ''%'' then
        (case directive_rx d of None \<Rightarrow> None
         | Some r \<Rightarrow> map_option (Seq r) (fmt_rx rest))
      else if py_isspace c then
        (if py_isspace d then fmt_rx (d # rest)
         else map_option (Seq (Seq (Sym CSpace) (Star CSpace))) (fmt_rx (d # rest)))
      else map_option (Seq (Sym (CChrI c))) (fmt_rx (d # rest)))"

definition index_of :: "string list \<Rightarrow> string \<Rightarrow> nat" where
  "index_of xs x = length (takeWhile (\<lambda>y. y \<noteq> x) xs)"

definition is_leap :: "nat \<Rightarrow> bool" where
  "is_leap y = (y mod 4 = 0 \<and> (y mod 100 \<noteq> 0 \<or> y mod 400 = 0))"

definition days_in_month :: "nat \<Rightarrow> nat \<Rightarrow> nat" where
  "days_in_month y m =
     (if m = 2 then (if is_leap y then 29 else 28)
      else if m = 4 \<or> m = 6 \<or> m = 9 \<or> m = 11 then 30 else 31)"

text \<open>The dates \<open>datetime.date(y, m, d)\<close> accepts.\<close>

definition valid_date :: "nat \<Rightarrow> nat \<Rightarrow> nat \<Rightarrow> bool" where
  "valid_date y m d =
     (1 \<le> y \<and> y \<le> 9999 \<and> 1 \<le> m \<and> m \<le> 12 \<and> 1 \<le> d \<and> d \<le> days_in_month y m)"

definition group_int :: "captures \<Rightarrow> string \<Rightarrow> nat \<Rightarrow> nat" where
  "group_int caps g dflt = (case group caps g of None \<Rightarrow> dflt | Some s \<Rightarrow> int_of_digits s)"

text \<open>
  \<open>datetime.strptime(data_string, format)\<close>: the format's expression must match at the
  start and leave nothing unconverted, and the fields must make a date and a time;
  every failure is a ValueError.
\<close>

definition strptime :: "string \<Rightarrow> string \<Rightarrow> exn + datetime" where
  "strptime data_string format =
    (case fmt_rx format of None \<Rightarrow> Inl ValueError
     | Some r \<Rightarrow>
       (case re_match r data_string of None \<Rightarrow> Inl ValueError
        | Some (found, rest) \<Rightarrow>
          if rest \<noteq> [] then Inl ValueError
          else
            let year = (case group found ''Y'' of Some s \<Rightarrow> int_of_digits s
                        | None \<Rightarrow> (case group found ''y'' of None \<Rightarrow> 1900
                            | Some s \<Rightarrow> (let y = int_of_digits s
                                           in if y \<le> 68 then y + 2000 else y + 1900)));
                month = (case group found ''b'' of
                           Some s \<Rightarrow> Suc (index_of month_abbr (map ascii_lower s))
                         | None \<Rightarrow> group_int found ''m'' 1);
                day = group_int found ''d'' 1;
                ampm = (case group found ''p'' of None \<Rightarrow> [] | Some s \<Rightarrow> map ascii_lower s);
                hour = (case group found ''I'' of None \<Rightarrow> group_int found ''H'' 0
                        | Some s \<Rightarrow> (let h = int_of_digits s
                            in if ampm = [] \<or> ampm = ''am'' then (if h = 12 then 0 else h)
                               else if ampm = ''pm'' then (if h \<noteq> 12 then h + 12 else h)
                               else h));
                minute = group_int found ''M'' 0;
                second = group_int found ''S'' 0;
                fraction = (case group found ''f'' of None \<Rightarrow> 0
                            | Some s \<Rightarrow> int_of_digits (s @ replicate (6 - length s) CHR ''0''))
            in if valid_date year month day \<and> second \<le> 59
               then Inr \<lparr>dt_year = year, dt_month = month, dt_day = day, dt_hour = hour,
                         dt_minute = minute, dt_second = second, dt_microsecond = fraction\<rparr>
               else Inl ValueError))"

definition pad2 :: "nat \<Rightarrow> string" where
  "pad2 n = [digit_chr (n div 10 mod 10), digit_chr (n mod 10)]"

definition pad4 :: "nat \<Rightarrow> string" where
  "pad4 n = [digit_chr (n div 1000 mod 10), digit_chr (n div 100 mod 10),
             digit_chr (n div 10 mod 10), digit_chr (n mod 10)]"

text \<open>
  \<open>strftime\<close> with the directives the repository uses, each zero-padded to its width as
  the library documents (year to four digits).
\<close>

definition strf_directive :: "datetime \<Rightarrow> char \<Rightarrow> string" where
  "strf_directive dt d =
    (if d = CHR ''Y'' then pad4 (dt_year dt)
     else if d = CHR ''m'' then pad2 (dt_month dt)
     else if d = CHR ''d'' then pad2 (dt_day dt)
     else if d = CHR ''H'' then pad2 (dt_hour dt)
     else if d = CHR ''M'' then pad2 (dt_minute dt)
     else if d = CHR ''S'' then pad2 (dt_second dt)
     else [CHR ''%'', d])"

fun strftime :: "datetime \<Rightarrow> string \<Rightarrow> string" where
  "strftime dt [] = []"
| "strftime dt [c] = [c]"
| "strftime dt (c # d # rest) =
     (if c = CHR ''%'' then strf_directive dt d @ strftime dt rest
      else c # strftime dt (d # rest))"

section \<open>utils/date\_parser.py\<close>

definition date_formats :: "string list" where
  "date_formats = [''%d-%b-%y'', ''%d-%b-%Y'', ''%m/%d/%Y'', ''%d-%b-%y'', ''%d/%b/%y'']"

text \<open>The loop over the formats: a ValueError moves on to the next format.\<close>

fun parse_date_loop :: "string \<Rightarrow> string list \<Rightarrow> exn + string option" where
  "parse_date_loop date_str [] = Inr None"
| "parse_date_loop date_str (date_format # fs) =
     (case strptime date_str date_format of
        Inr dt \<Rightarrow> Inr (Some (strftime dt ''%Y-%m-%d''))
      | Inl e \<Rightarrow> if e = ValueError then parse_date_loop date_str fs else Inl e)"

definition parse_date :: "pyobj \<Rightarrow> exn + string option" where
  "parse_date date_str =
    (if \<not> truthy date_str \<or> \<not> isinstance_str date_str then Inr None
     else case date_str of
       PyStr s \<Rightarrow>
         (let s' = strip s in
          if s' = [] then Inr None else parse_date_loop s' date_formats)
     | _ \<Rightarrow> Inr None)"

text \<open>
  The pattern of \<open>parse_datetime\<close>:
  \<open>Printed on (\d{1,2}/\d{1,2}/\d{4}) / *(\d{1,2}:\d{2}:\d{2})(AM|PM)\<close>.
\<close>

definition printed_on_pattern :: rx where
  "printed_on_pattern = seqs
     [lit ''Printed on '',
      Grp ''1'' (seqs [rep12 digit, lit ''/'', rep12 digit, lit ''/'', digit, digit, digit, digit]),
      lit '' /'', Star (CChr CHR '' ''),
      Grp ''2'' (seqs [rep12 digit, lit '':'', digit, digit, lit '':'', digit, digit]),
      Grp ''3'' (Alt (lit ''AM'') (lit ''PM''))]"

text \<open>A \<open>try\<close> around one strptime/strftime pair whose ValueError is passed over.\<close>

definition try_datetime :: "string \<Rightarrow> string \<Rightarrow> exn + string option" where
  "try_datetime s format =
    (case strptime s format of
       Inr dt \<Rightarrow> Inr (Some (strftime dt ''%Y-%m-%d %H:%M:%S''))
     | Inl e \<Rightarrow> if e = ValueError then Inr None else Inl e)"

definition parse_datetime :: "pyobj \<Rightarrow> exn + string option" where
  "parse_datetime datetime_str =
    (if \<not> truthy datetime_str \<or> \<not> isinstance_str datetime_str then Inr None
     else case datetime_str of
       PyStr s \<Rightarrow>
         (let s' = strip s in
          if s' = [] then Inr None
          else
            then_exn
              (case re_search printed_on_pattern s' of
                 None \<Rightarrow> Inr None
               | Some (m, rest) \<Rightarrow>
                   (case (group m ''1'', group m ''2'', group m ''3'') of
                      (Some date_str, Some time_str, Some ampm) \<Rightarrow>
                        try_datetime (date_str @ '' '' @ time_str @ '' '' @ ampm)
                          ''%m/%d/%Y %I:%M:%S %p''
                    | _ \<Rightarrow> Inr None))
              (\<lambda>r1. case r1 of Some out \<Rightarrow> Inr (Some out)
                 | None \<Rightarrow>
                   then_exn (try_datetime s' ''%Y-%m-%d %H:%M:%S'')
                     (\<lambda>r2. case r2 of Some out \<Rightarrow> Inr (Some out)
                        | None \<Rightarrow>
                          then_exn (try_datetime s' ''%Y-%m-%dT%H:%M:%S.%f'')
                            (\<lambda>r3. Inr r3))))
     | _ \<Rightarrow> Inr None)"

section \<open>processors: the numeric normalizer\<close>

text \<open>
  \<open>_convert_to_float\<close>, the same in the three processors. The builtin \<open>float\<close> is the
  parameter \<open>float_of_str\<close>: its result on a string, or the exception it raises.
\<close>

definition startswith :: "string \<Rightarrow> string \<Rightarrow> bool" where
  "startswith s p = (take (length p) s = p)"

definition endswith :: "string \<Rightarrow> string \<Rightarrow> bool" where
  "endswith s p = (length p \<le> length s \<and> drop (length s - length p) s = p)"

definition convert_to_float :: "(string \<Rightarrow> exn + pyfloat) \<Rightarrow> pyobj \<Rightarrow> exn + pyfloat option" where
  "convert_to_float float_of_str v =
    (if \<not> truthy v \<or> \<not> isinstance_str v then Inr None
     else case v of
       PyStr s \<Rightarrow>
         (let s' = strip s in
          if s' = [] then Inr None
          else case float_of_str s' of
                 Inr x \<Rightarrow> Inr (Some x)
               | Inl e \<Rightarrow>
                   if e \<noteq> ValueError then Inl e
                   else if startswith s' ''('' \<and> endswith s' '')'' then
                     (case float_of_str (butlast (tl s')) of
                        Inr y \<Rightarrow> Inr (Some (float_neg y))
                      | Inl e' \<Rightarrow> if e' = ValueError then Inr None else Inl e')
                   else Inr None)
     | _ \<Rightarrow> Inr None)"

text \<open>
  \<open>float\<close> on the plain decimal literals (an optional sign, digits, an optional
  fraction), where its value is the literal's; every other string is refused here. It
  stands for the builtin where an example is evaluated.
\<close>

definition float_lit :: "string \<Rightarrow> exn + pyfloat" where
  "float_lit s =
    (let t = strip s;
         neg = startswith t ''-'';
         u = (if startswith t ''-'' \<or> startswith t ''+'' then tl t else t);
         ip = takeWhile isdigit u;
         r = dropWhile isdigit u;
         fp = (if startswith r ''.'' then tl r else [])
     in if (ip = [] \<and> fp = []) \<or> (r \<noteq> [] \<and> \<not> startswith r ''.'') \<or> \<not> list_all isdigit fp
        then Inl ValueError
        else Inr (Fin ((if neg then - 1 else 1) *
               (of_nat (int_of_digits ip) + of_nat (int_of_digits fp) / 10 ^ length fp))))"

section \<open>schemas/models.py: the record model\<close>

text \<open>
  A \<open>date\<close> or \<open>datetime\<close> field holds the value's ISO text (\<open>YYYY-MM-DD\<close>,
  \<open>YYYY-MM-DD HH:MM:SS\<close>), which is also what the database adapter stores for it.
\<close>

record DispatchDataCreate =
  file_type :: FileType
  work_cell :: string
  job_number :: string
  part_number :: string
  comments :: "string option"
  job_qty :: pyfloat
  bal_qty :: pyfloat
  code :: string
  prod_date :: string
  est_compl_date :: "string option"
  and_on :: "string option"
  m_pc :: "pyfloat option"
  prod_hr :: "pyfloat option"
  report_start_date :: string
  report_end_date :: string
  report_department :: string
  report_creation_datetime :: string
  file_name :: string
  processing_status :: ProcessingStatus
  upload_date :: string

definition is_iso_date :: "string \<Rightarrow> bool" where
  "is_iso_date s =
     (length s = 10 \<and> list_all isdigit (take 4 s) \<and> s ! 4 = CHR ''-'' \<and>
      list_all isdigit (take 2 (drop 5 s)) \<and> s ! 7 = CHR ''-'' \<and>
      list_all isdigit (drop 8 s) \<and>
      valid_date (int_of_digits (take 4 s)) (int_of_digits (take 2 (drop 5 s)))
        (int_of_digits (drop 8 s)))"

definition is_iso_datetime :: "string \<Rightarrow> bool" where
  "is_iso_datetime s =
     (length s = 19 \<and> is_iso_date (take 10 s) \<and> s ! 10 = CHR '' '' \<and>
      list_all isdigit (take 2 (drop 11 s)) \<and> s ! 13 = CHR '':'' \<and>
      list_all isdigit (take 2 (drop 14 s)) \<and> s ! 16 = CHR '':'' \<and>
      list_all isdigit (drop 17 s) \<and>
      int_of_digits (take 2 (drop 11 s)) \<le> 23 \<and>
      int_of_digits (take 2 (drop 14 s)) \<le> 59 \<and>
      int_of_digits (drop 17 s) \<le> 59)"

text \<open>The validator of \<open>job_qty\<close>, \<open>bal_qty\<close>, \<open>m_pc\<close> and \<open>prod_hr\<close>.\<close>

definition validate_numeric_fields :: "pyfloat option \<Rightarrow> exn + pyfloat option" where
  "validate_numeric_fields v =
     (case v of None \<Rightarrow> Inr None
      | Some x \<Rightarrow> if float_lt0 x then Inl ValueError else Inr (Some x))"

text \<open>
  Field validation as the model class declares it: a required \<open>float\<close> refuses None, a
  \<open>date\<close> or \<open>datetime\<close> field takes the ISO text the parsers produce, an
  enumeration field takes a member's value. Every failure is a ValidationError.
\<close>

definition required_float :: "pyfloat option \<Rightarrow> exn + pyfloat" where
  "required_float v =
     (case v of None \<Rightarrow> Inl ValidationError
      | Some x \<Rightarrow> (case validate_numeric_fields (Some x) of
                     Inl e \<Rightarrow> Inl ValidationError | Inr r \<Rightarrow> Inr x))"

definition optional_float :: "pyfloat option \<Rightarrow> exn + pyfloat option" where
  "optional_float v =
     (case validate_numeric_fields v of Inl e \<Rightarrow> Inl ValidationError | Inr r \<Rightarrow> Inr r)"

definition date_field :: "string \<Rightarrow> exn + string" where
  "date_field s = (if is_iso_date s then Inr s else Inl ValidationError)"

definition optional_date_field :: "string option \<Rightarrow> exn + string option" where
  "optional_date_field v =
     (case v of None \<Rightarrow> Inr None
      | Some s \<Rightarrow> if is_iso_date s then Inr (Some s) else Inl ValidationError)"

definition datetime_field :: "string option \<Rightarrow> exn + string" where
  "datetime_field v =
     (case v of None \<Rightarrow> Inl ValidationError
      | Some s \<Rightarrow> if is_iso_datetime s then Inr s else Inl ValidationError)"

definition enum_field :: "string \<Rightarrow> exn + FileType" where
  "enum_field s = (case FileType_of_value s of None \<Rightarrow> Inl ValidationError | Some m \<Rightarrow> Inr m)"

text \<open>
  The constructor call \<open>DispatchDataCreate(file_type=..., ..., processing_status=...)\<close>;
  \<open>upload_date\<close> is not passed, so it is the default factory's \<open>datetime.now()\<close>,
  the last argument here.
\<close>

definition DispatchDataCreate_init ::
  "string \<Rightarrow> string \<Rightarrow> string \<Rightarrow> string \<Rightarrow> string option \<Rightarrow> pyfloat option \<Rightarrow>
   pyfloat option \<Rightarrow> string \<Rightarrow> string \<Rightarrow> string option \<Rightarrow> string option \<Rightarrow>
   pyfloat option \<Rightarrow> pyfloat option \<Rightarrow> string \<Rightarrow> string \<Rightarrow> string \<Rightarrow> string option \<Rightarrow>
   string \<Rightarrow> ProcessingStatus \<Rightarrow> string \<Rightarrow> exn + DispatchDataCreate" where
  "DispatchDataCreate_init a_file_type a_work_cell a_job_number a_part_number a_comments
     a_job_qty a_bal_qty a_code a_prod_date a_est_compl_date a_and_on a_m_pc a_prod_hr
     a_report_start_date a_report_end_date a_report_department a_report_creation_datetime
     a_file_name a_processing_status now =
    then_exn (enum_field a_file_type) (\<lambda>v_file_type.
    then_exn (required_float a_job_qty) (\<lambda>v_job_qty.
    then_exn (required_float a_bal_qty) (\<lambda>v_bal_qty.
    then_exn (date_field a_prod_date) (\<lambda>v_prod_date.
    then_exn (optional_date_field a_est_compl_date) (\<lambda>v_est_compl_date.
    then_exn (optional_float a_m_pc) (\<lambda>v_m_pc.
    then_exn (optional_float a_prod_hr) (\<lambda>v_prod_hr.
    then_exn (date_field a_report_start_date) (\<lambda>v_report_start_date.
    then_exn (date_field a_report_end_date) (\<lambda>v_report_end_date.
    then_exn (datetime_field a_report_creation_datetime) (\<lambda>v_report_creation_datetime.
      Inr \<lparr>file_type = v_file_type, work_cell = a_work_cell, job_number = a_job_number,
           part_number = a_part_number, comments = a_comments, job_qty = v_job_qty,
           bal_qty = v_bal_qty, code = a_code, prod_date = v_prod_date,
           est_compl_date = v_est_compl_date, and_on = a_and_on, m_pc = v_m_pc,
           prod_hr = v_prod_hr, report_start_date = v_report_start_date,
           report_end_date = v_report_end_date, report_department = a_report_department,
           report_creation_datetime = v_report_creation_datetime, file_name = a_file_name,
           processing_status = a_processing_status, upload_date = now\<rparr>))))))))))"

record FileProcessingSummary =
  s_file_name :: string
  s_file_type :: FileType
  total_rows :: int
  successful_rows :: int
  duplicate_rows :: int
  error_rows :: int
  skipped_rows :: int
  s_upload_date :: string

section \<open>The record store\<close>

text \<open>
  The table \<open>dispatch_data\<close> is the list of its rows in insertion order; a row gives
  each column its value. A float NaN is bound as NULL.
\<close>

datatype sqlval = SqlNull | SqlText string | SqlReal pyfloat

type_synonym table_row = "(string \<times> sqlval) list"

type_synonym table = "table_row list"

definition bind_float :: "pyfloat \<Rightarrow> sqlval" where
  "bind_float x = (if x = NaN then SqlNull else SqlReal x)"

definition bind_opt_float :: "pyfloat option \<Rightarrow> sqlval" where
  "bind_opt_float v = (case v of None \<Rightarrow> SqlNull | Some x \<Rightarrow> bind_float x)"

definition bind_opt_text :: "string option \<Rightarrow> sqlval" where
  "bind_opt_text v = (case v of None \<Rightarrow> SqlNull | Some s \<Rightarrow> SqlText s)"

text \<open>
  \<open>data.model_dump()\<close>: the fields in the order the classes declare them (those of
  \<open>DispatchDataBase\<close>, then \<open>file_name\<close>, \<open>processing_status\<close>, \<open>upload_date\<close>),
  each value as the database driver binds it.
\<close>

definition model_dump :: "DispatchDataCreate \<Rightarrow> (string \<times> sqlval) list" where
  "model_dump d =
    [(''file_type'', SqlText (FileType_value (file_type d))),
     (''work_cell'', SqlText (work_cell d)),
     (''job_number'', SqlText (job_number d)),
     (''part_number'', SqlText (part_number d)),
     (''comments'', bind_opt_text (comments d)),
     (''job_qty'', bind_float (job_qty d)),
     (''bal_qty'', bind_float (bal_qty d)),
     (''code'', SqlText (code d)),
     (''prod_date'', SqlText (prod_date d)),
     (''est_compl_date'', bind_opt_text (est_compl_date d)),
     (''and_on'', bind_opt_text (and_on d)),
     (''m_pc'', bind_opt_float (m_pc d)),
     (''prod_hr'', bind_opt_float (prod_hr d)),
     (''report_start_date'', SqlText (report_start_date d)),
     (''report_end_date'', SqlText (report_end_date d)),
     (''report_department'', SqlText (report_department d)),
     (''report_creation_datetime'', SqlText (report_creation_datetime d)),
     (''file_name'', SqlText (file_name d)),
     (''processing_status'', SqlText (ProcessingStatus_value (processing_status d))),
     (''upload_date'', SqlText (upload_date d))]"

definition column :: "table_row \<Rightarrow> string \<Rightarrow> sqlval" where
  "column r c = (case map_of r c of None \<Rightarrow> SqlNull | Some v \<Rightarrow> v)"

text \<open>The comparison \<open>a = b\<close> of SQL is true only on two equal values that are not NULL.\<close>

definition sql_eq :: "sqlval \<Rightarrow> sqlval \<Rightarrow> bool" where
  "sql_eq a b = (a \<noteq> SqlNull \<and> b \<noteq> SqlNull \<and> a = b)"

section \<open>processors/base.py: the duplicate check and the insert\<close>

definition key_columns :: "string list" where
  "key_columns = [''file_type'', ''work_cell'', ''job_number'', ''part_number'', ''job_qty'',
     ''bal_qty'', ''code'', ''prod_date'', ''est_compl_date'', ''and_on'', ''m_pc'', ''prod_hr'']"

definition row_exists :: "table \<Rightarrow> (string \<times> sqlval) list \<Rightarrow> bool" where
  "row_exists db_conn data =
     (0 < length (filter (\<lambda>r. list_all (\<lambda>c. sql_eq (column r c) (column data c)) key_columns)
                    db_conn))"

text \<open>The column list of the INSERT statement, in its order.\<close>

definition insert_columns :: "string list" where
  "insert_columns = [''file_type'', ''work_cell'', ''job_number'', ''part_number'', ''comments'',
     ''job_qty'', ''bal_qty'', ''code'', ''prod_date'', ''est_compl_date'', ''and_on'',
     ''m_pc'', ''prod_hr'', ''report_start_date'', ''report_end_date'',
     ''report_department'', ''report_creation_datetime'', ''upload_date'',
     ''file_name'', ''processing_status'']"

text \<open>The columns the table declares NOT NULL (database/connection.py).\<close>

definition not_null_columns :: "string list" where
  "not_null_columns = [''file_type'', ''work_cell'', ''job_number'', ''part_number'',
     ''job_qty'', ''bal_qty'', ''code'', ''prod_date'', ''report_start_date'',
     ''report_end_date'', ''report_department'', ''report_creation_datetime'',
     ''upload_date'', ''file_name'', ''processing_status'']"

text \<open>
  \<open>_insert_data\<close>: the values of \<open>model_dump()\<close> are bound by position to the column
  list. A NULL in a NOT NULL column fails the statement; the transaction is rolled back
  and the error raised again.
\<close>

definition insert_data :: "table \<Rightarrow> DispatchDataCreate \<Rightarrow> exn + table" where
  "insert_data db_conn data =
     (let r = zip insert_columns (map snd (model_dump data))
      in if list_all (\<lambda>c. column r c \<noteq> SqlNull) not_null_columns
         then Inr (db_conn @ [r]) else Inl IntegrityError)"

section \<open>processors/assy.py, fabcut.py, lp.py: the format adapters\<close>

datatype processor = AssyFileProcessor | FabcutFileProcessor | LPFileProcessor

fun processor_file_type :: "processor \<Rightarrow> FileType" where
  "processor_file_type AssyFileProcessor = ASSY"
| "processor_file_type FabcutFileProcessor = FABCUT"
| "processor_file_type LPFileProcessor = LP"

text \<open>
  A CSV reader is the list of the rows it has yet to yield; \<open>next(reader)\<close> raises
  StopIteration at the end.
\<close>

definition next_row :: "string list list \<Rightarrow> exn + (string list \<times> string list list)" where
  "next_row reader = (case reader of [] \<Rightarrow> Inl StopIteration | r # rs \<Rightarrow> Inr (r, rs))"

text \<open>\<open>_extract_metadata\<close>, the same in the three processors.\<close>

definition extract_metadata :: "string list list \<Rightarrow> exn + (string \<times> string)" where
  "extract_metadata reader =
    (case
       then_exn (next_row reader) (\<lambda>(row1, reader1).
       then_exn (index row1 1) (\<lambda>cell1.
       then_exn (parse_date (PyStr cell1)) (\<lambda>report_start_date.
       if \<not> truthy_opt report_start_date then Inl ValueError
       else
       then_exn (next_row reader1) (\<lambda>(row2, reader2).
       then_exn (index row2 2) (\<lambda>report_department.
       if report_department = [] then Inl ValueError
       else (case report_start_date of None \<Rightarrow> Inl ValueError
             | Some d \<Rightarrow> Inr (d, report_department)))))))
     of Inl e \<Rightarrow> if e = StopIteration \<or> e = IndexError then Inl ValueError else Inl e
      | Inr v \<Rightarrow> Inr v)"

text \<open>The \<open>try ... except IndexError: return None\<close> of the two cell readers.\<close>

definition except_IndexError :: "exn + 'a option \<Rightarrow> exn + 'a option" where
  "except_IndexError x =
     (case x of Inl e \<Rightarrow> if e = IndexError then Inr None else Inl e | Inr v \<Rightarrow> Inr v)"

fun prod_date_column :: "processor \<Rightarrow> nat" where
  "prod_date_column AssyFileProcessor = 25"
| "prod_date_column FabcutFileProcessor = 22"
| "prod_date_column LPFileProcessor = 25"

fun report_creation_column :: "processor \<Rightarrow> nat" where
  "report_creation_column AssyFileProcessor = 30"
| "report_creation_column FabcutFileProcessor = 25"
| "report_creation_column LPFileProcessor = 28"

definition get_prod_date :: "processor \<Rightarrow> string list \<Rightarrow> exn + string option" where
  "get_prod_date self row =
     except_IndexError
       (then_exn (index row (prod_date_column self)) (\<lambda>cell. parse_date (PyStr cell)))"

definition get_report_creation_datetime :: "processor \<Rightarrow> string list \<Rightarrow> exn + string option" where
  "get_report_creation_datetime self row =
     except_IndexError
       (then_exn (index row (report_creation_column self)) (\<lambda>cell. parse_datetime (PyStr cell)))"

text \<open>The blank check of each processor: \<open>all(not cell.strip() for cell in row[a:b])\<close>.\<close>

fun row_is_blank :: "processor \<Rightarrow> string list \<Rightarrow> bool" where
  "row_is_blank AssyFileProcessor row = list_all (\<lambda>cell. strip cell = []) (slice 20 30 row)"
| "row_is_blank FabcutFileProcessor row = list_all (\<lambda>cell. strip cell = []) (slice 17 25 row)"
| "row_is_blank LPFileProcessor row = list_all (\<lambda>cell. strip cell = []) (slice 19 28 row)"

text \<open>The \<open>except Exception as e: raise ValueError(...)\<close> around the mapping.\<close>

definition reraise_ValueError :: "exn + 'a \<Rightarrow> exn + 'a" where
  "reraise_ValueError x = (case x of Inl e \<Rightarrow> Inl ValueError | Inr v \<Rightarrow> Inr v)"

text \<open>\<open>self._convert_to_float(row[i])\<close>.\<close>

definition float_cell ::
  "(string \<Rightarrow> exn + pyfloat) \<Rightarrow> string list \<Rightarrow> nat \<Rightarrow> exn + pyfloat option" where
  "float_cell float_of_str row i =
     then_exn (index row i) (\<lambda>cell. convert_to_float float_of_str (PyStr cell))"

text \<open>\<open>self._convert_to_float(row[i]) if row[i] else None\<close>.\<close>

definition float_cell_if ::
  "(string \<Rightarrow> exn + pyfloat) \<Rightarrow> string list \<Rightarrow> nat \<Rightarrow> exn + pyfloat option" where
  "float_cell_if float_of_str row i =
     then_exn (index row i) (\<lambda>cell.
       if cell \<noteq> [] then float_cell float_of_str row i else Inr None)"

text \<open>
  \<open>_map_row_to_data\<close> of each processor. The arguments after the float parser and the
  processor: the file's name, the clock's reading for the record's \<open>upload_date\<close>, and
  the method's own parameters. None is a row to skip.
\<close>

fun map_row_to_data ::
  "(string \<Rightarrow> exn + pyfloat) \<Rightarrow> processor \<Rightarrow> string \<Rightarrow> string \<Rightarrow> string list \<Rightarrow> string \<Rightarrow>
   string \<Rightarrow> string \<Rightarrow> string option \<Rightarrow> exn + DispatchDataCreate option" where
  "map_row_to_data float_of_str AssyFileProcessor fname now row start_date
       end_date department creation_datetime =
    (if row_is_blank AssyFileProcessor row then Inr None
     else reraise_ValueError
       (then_exn (index row 25) (\<lambda>cell25.
        then_exn (parse_date (PyStr cell25)) (\<lambda>prod_date.
        case prod_date of None \<Rightarrow> Inr None
        | Some pd \<Rightarrow>
          if pd = [] then Inr None
          else
          then_exn (index row 26) (\<lambda>cell26.
          then_exn (if cell26 \<noteq> [] then
                      then_exn (index row 26) (\<lambda>c. parse_date (PyStr c))
                    else Inr None) (\<lambda>est_compl_date.
          then_exn (index row 19) (\<lambda>work_cell.
          then_exn (index row 20) (\<lambda>job_number.
          then_exn (index row 21) (\<lambda>part_number.
          then_exn (float_cell float_of_str row 22) (\<lambda>job_qty.
          then_exn (float_cell float_of_str row 23) (\<lambda>bal_qty.
          then_exn (index row 24) (\<lambda>code.
          then_exn (index row 27) (\<lambda>and_on.
          then_exn (float_cell float_of_str row 28) (\<lambda>m_pc.
          then_exn (float_cell float_of_str row 29) (\<lambda>prod_hr.
          then_exn (DispatchDataCreate_init (db_value (processor_file_type AssyFileProcessor))
                      work_cell job_number part_number None job_qty bal_qty code pd
                      est_compl_date (Some and_on) m_pc prod_hr start_date
                      end_date department creation_datetime
                      fname SUCCESS now)
            (\<lambda>data. Inr (Some data)))))))))))))))))"
| "map_row_to_data float_of_str FabcutFileProcessor fname now row start_date
       end_date department creation_datetime =
    (if row_is_blank FabcutFileProcessor row then Inr None
     else reraise_ValueError
       (then_exn (index row 22) (\<lambda>cell22.
        then_exn (parse_date (PyStr cell22)) (\<lambda>prod_date.
        case prod_date of None \<Rightarrow> Inr None
        | Some pd \<Rightarrow>
          if pd = [] then Inr None
          else
          then_exn (index row 16) (\<lambda>work_cell.
          then_exn (index row 17) (\<lambda>job_number.
          then_exn (index row 18) (\<lambda>part_number.
          then_exn (float_cell float_of_str row 19) (\<lambda>job_qty.
          then_exn (float_cell float_of_str row 20) (\<lambda>bal_qty.
          then_exn (index row 21) (\<lambda>code.
          then_exn (float_cell_if float_of_str row 23) (\<lambda>m_pc.
          then_exn (float_cell_if float_of_str row 24) (\<lambda>prod_hr.
          then_exn (DispatchDataCreate_init (db_value (processor_file_type FabcutFileProcessor))
                      work_cell job_number part_number None job_qty bal_qty code pd
                      None None m_pc prod_hr start_date
                      end_date department creation_datetime
                      fname SUCCESS now)
            (\<lambda>data. Inr (Some data))))))))))))))"
| "map_row_to_data float_of_str LPFileProcessor fname now row start_date
       end_date department creation_datetime =
    (if row_is_blank LPFileProcessor row then Inr None
     else reraise_ValueError
       (then_exn (index row 25) (\<lambda>cell25.
        then_exn (parse_date (PyStr cell25)) (\<lambda>prod_date.
        case prod_date of None \<Rightarrow> Inr None
        | Some pd \<Rightarrow>
          if pd = [] then Inr None
          else
          then_exn (index row 18) (\<lambda>work_cell.
          then_exn (index row 19) (\<lambda>job_number.
          then_exn (index row 20) (\<lambda>part_number.
          then_exn (index row 21) (\<lambda>comments.
          then_exn (float_cell float_of_str row 22) (\<lambda>job_qty.
          then_exn (float_cell float_of_str row 23) (\<lambda>bal_qty.
          then_exn (index row 24) (\<lambda>code.
          then_exn (float_cell_if float_of_str row 26) (\<lambda>m_pc.
          then_exn (float_cell_if float_of_str row 27) (\<lambda>prod_hr.
          then_exn (DispatchDataCreate_init (db_value (processor_file_type LPFileProcessor))
                      work_cell job_number part_number (Some comments) job_qty bal_qty code pd
                      None None m_pc prod_hr start_date
                      end_date department creation_datetime
                      fname SUCCESS now)
            (\<lambda>data. Inr (Some data)))))))))))))))"

section \<open>processors/base.py: process\_file\<close>

text \<open>
  The summary \<open>__init__\<close> creates. \<open>now\<close> is the clock's reading then.
\<close>

definition init_summary :: "processor \<Rightarrow> string \<Rightarrow> string \<Rightarrow> FileProcessingSummary" where
  "init_summary self fname now =
     \<lparr>s_file_name = fname, s_file_type = processor_file_type self, total_rows = 0,
      successful_rows = 0, duplicate_rows = 0, error_rows = 0, skipped_rows = 0,
      s_upload_date = now\<rparr>"

text \<open>One turn of the first pass: an exception is logged and the row passed over.\<close>

definition first_pass_step :: "processor \<Rightarrow> string option \<Rightarrow> string list \<Rightarrow> string option" where
  "first_pass_step self max_prod_date row =
     (case get_prod_date self row of
        Inl e \<Rightarrow> max_prod_date
      | Inr found \<Rightarrow>
          (case found of None \<Rightarrow> max_prod_date
           | Some pd \<Rightarrow>
               if pd \<noteq> [] \<and> (case max_prod_date of None \<Rightarrow> True | Some m \<Rightarrow> str_lt m pd)
               then Some pd else max_prod_date))"

definition first_pass :: "processor \<Rightarrow> string list list \<Rightarrow> string option" where
  "first_pass self data_rows = foldl (first_pass_step self) None data_rows"

text \<open>\<open>max_prod_date or report_start_date\<close>.\<close>

definition or_start_date :: "string option \<Rightarrow> string \<Rightarrow> string" where
  "or_start_date max_prod_date start_date =
     (case max_prod_date of None \<Rightarrow> start_date
      | Some m \<Rightarrow> if m \<noteq> [] then m else start_date)"

text \<open>
  One turn of the second pass, on the summary and the table. \<open>clock row_num\<close> is the
  time at which the row's record is built.
\<close>

definition process_row ::
  "(string \<Rightarrow> exn + pyfloat) \<Rightarrow> processor \<Rightarrow> string \<Rightarrow> (nat \<Rightarrow> string) \<Rightarrow> string \<Rightarrow> string \<Rightarrow>
   string \<Rightarrow> FileProcessingSummary \<times> table \<Rightarrow> nat \<Rightarrow> string list \<Rightarrow>
   FileProcessingSummary \<times> table" where
  "process_row float_of_str self fname clock start_date end_date
     department st row_num row =
    (let summary = (fst st)\<lparr>total_rows := total_rows (fst st) + 1\<rparr>;
         db_conn = snd st
     in case then_exn (get_report_creation_datetime self row) (\<lambda>creation_datetime.
               map_row_to_data float_of_str self fname (clock row_num) row start_date
                 end_date department creation_datetime) of
          Inl e \<Rightarrow> (summary\<lparr>error_rows := error_rows summary + 1\<rparr>, db_conn)
        | Inr None \<Rightarrow> (summary\<lparr>skipped_rows := skipped_rows summary + 1\<rparr>, db_conn)
        | Inr (Some data) \<Rightarrow>
            if row_exists db_conn (model_dump data)
            then (summary\<lparr>duplicate_rows := duplicate_rows summary + 1\<rparr>, db_conn)
            else (case insert_data db_conn data of
                    Inl e \<Rightarrow> (summary\<lparr>error_rows := error_rows summary + 1\<rparr>, db_conn)
                  | Inr db_conn' \<Rightarrow>
                      (summary\<lparr>successful_rows := successful_rows summary + 1\<rparr>, db_conn')))"

fun process_rows ::
  "(string \<Rightarrow> exn + pyfloat) \<Rightarrow> processor \<Rightarrow> string \<Rightarrow> (nat \<Rightarrow> string) \<Rightarrow> string \<Rightarrow> string \<Rightarrow>
   string \<Rightarrow> nat \<Rightarrow> string list list \<Rightarrow> FileProcessingSummary \<times> table \<Rightarrow>
   FileProcessingSummary \<times> table" where
  "process_rows float_of_str self fname clock rsd red dept row_num [] st = st"
| "process_rows float_of_str self fname clock rsd red dept row_num (row # rows) st =
     process_rows float_of_str self fname clock rsd red dept (Suc row_num) rows
       (process_row float_of_str self fname clock rsd red dept st row_num row)"

text \<open>
  \<open>process_file\<close> on the rows the CSV reader yields for the file, from the processor's
  summary and the table. An exception leaves through \<open>raise\<close>; no summary is returned
  then.
\<close>

definition process_file ::
  "(string \<Rightarrow> exn + pyfloat) \<Rightarrow> processor \<Rightarrow> string \<Rightarrow> (nat \<Rightarrow> string) \<Rightarrow> string list list \<Rightarrow>
   FileProcessingSummary \<times> table \<Rightarrow> exn + (FileProcessingSummary \<times> table)" where
  "process_file float_of_str self fname clock file st =
    then_exn (extract_metadata file) (\<lambda>(start_date, department).
    then_exn (next_row file) (\<lambda>(row1, reader1).
    then_exn (next_row reader1) (\<lambda>(row2, data_rows).
      let max_prod_date = first_pass self data_rows;
          end_date = or_start_date max_prod_date start_date
      in
      then_exn (next_row file) (\<lambda>(row1', reader1').
      then_exn (next_row reader1') (\<lambda>(row2', data_rows').
        Inr (process_rows float_of_str self fname clock start_date end_date
               department 1 data_rows' st))))))"

section \<open>The specification's statements, as definitions\<close>

text \<open>
  The date normalizer as the specification words it: the trimmed input is tried
  against DD-Mon-YY, DD-Mon-YYYY, MM/DD/YYYY and DD/Mon/YY in this order, the first
  pattern that parses gives the result, and there is no result otherwise.
\<close>

definition spec_date_patterns :: "string list" where
  "spec_date_patterns = [''%d-%b-%y'', ''%d-%b-%Y'', ''%m/%d/%Y'', ''%d/%b/%y'']"

fun first_parsing :: "string \<Rightarrow> string list \<Rightarrow> string option" where
  "first_parsing s [] = None"
| "first_parsing s (f # fs) =
     (case strptime s f of Inr dt \<Rightarrow> Some (strftime dt ''%Y-%m-%d'')
      | Inl e \<Rightarrow> first_parsing s fs)"

definition parse_date_spec :: "pyobj \<Rightarrow> string option" where
  "parse_date_spec v =
     (case v of
        PyStr s \<Rightarrow> if strip s = [] then None else first_parsing (strip s) spec_date_patterns
      | _ \<Rightarrow> None)"

text \<open>
  The numeric normalizer as the specification words it: no value on an input that is
  not a string or is empty after trimming; the direct parse of the trimmed string when
  it succeeds; otherwise, for a string wrapped in parentheses, the negated parse of the
  interior; no value on any other failure.
\<close>

definition wrapped_in_parentheses :: "string \<Rightarrow> bool" where
  "wrapped_in_parentheses t = (t \<noteq> [] \<and> hd t = CHR ''('' \<and> last t = CHR '')'')"

definition interior :: "string \<Rightarrow> string" where
  "interior t = take (length t - 2) (drop 1 t)"

definition convert_to_float_spec :: "(string \<Rightarrow> exn + pyfloat) \<Rightarrow> pyobj \<Rightarrow> pyfloat option" where
  "convert_to_float_spec float_of_str v =
     (case v of
        PyStr s \<Rightarrow>
          if strip s = [] then None
          else (case float_of_str (strip s) of
                  Inr x \<Rightarrow> Some x
                | Inl e \<Rightarrow>
                    if wrapped_in_parentheses (strip s) then
                      (case float_of_str (interior (strip s)) of
                         Inr y \<Rightarrow> Some (float_neg y)
                       | Inl e' \<Rightarrow> None)
                    else None)
      | _ \<Rightarrow> None)"

text \<open>
  Metadata extraction as the specification words it: row 1, column index 1 must parse
  as a date; row 2, column index 2 must be a non-empty string; a missing row or a row
  too short gives nothing.
\<close>

definition spec_metadata :: "string list list \<Rightarrow> (string \<times> string) option" where
  "spec_metadata file =
     (case file of
        row1 # row2 # rest \<Rightarrow>
          if 1 < length row1 \<and> 2 < length row2 then
            (case parse_date_spec (PyStr (row1 ! 1)) of
               Some d \<Rightarrow> if row2 ! 2 \<noteq> [] then Some (d, row2 ! 2) else None
             | None \<Rightarrow> None)
          else None
      | _ \<Rightarrow> None)"

text \<open>
  The first column of each layout's blank-check range: a row with no cell at this
  index has an empty range.
\<close>

fun blank_range_start :: "processor \<Rightarrow> nat" where
  "blank_range_start AssyFileProcessor = 20"
| "blank_range_start FabcutFileProcessor = 17"
| "blank_range_start LPFileProcessor = 19"

text \<open>The sum of the four outcome counters of a summary.\<close>

definition outcome_sum :: "FileProcessingSummary \<Rightarrow> int" where
  "outcome_sum s = successful_rows s + duplicate_rows s + error_rows s + skipped_rows s"

section \<open>Example inputs\<close>

text \<open>
  An Assy file with the two metadata rows and one data row written twice, a Fabcut file
  with one data row, and a clock that always reads the same time.
\<close>

definition example_assy_row :: "string list" where
  "example_assy_row = replicate 19 [] @
     [''WC1'', ''J100'', ''P-7'', ''10'', ''4'', ''A'', ''30-Sep-24'', ''1-Oct-24'', ''x'',
      ''1.5'', ''2'', ''Printed on 9/27/2024 /  3:59:22PM'']"

definition example_assy_file :: "string list list" where
  "example_assy_file =
     [[''Report'', ''27-Sep-24''], [[], [], ''Assembly''], example_assy_row, example_assy_row]"

definition example_fabcut_row :: "string list" where
  "example_fabcut_row = replicate 16 [] @
     [''WC1'', ''J100'', ''P-7'', ''10'', ''4'', ''A'', ''30-Sep-24'', ''1.5'', ''2'',
      ''Printed on 9/27/2024 /  3:59:22PM'']"

definition example_fabcut_file :: "string list list" where
  "example_fabcut_file =
     [[''Report'', ''27-Sep-24''], [[], [], ''Cutting''], example_fabcut_row]"

definition example_clock :: "nat \<Rightarrow> string" where
  "example_clock n = ''2024-10-01 08:00:00''"

text \<open>
  The record the example Assy row maps to in a file named \<open>fname\<close> at time \<open>now\<close>,
  and the table row its insert stores.
\<close>

definition example_record :: "string \<Rightarrow> string \<Rightarrow> DispatchDataCreate" where
  "example_record fname now =
     \<lparr>file_type = ASSY, work_cell = ''WC1'', job_number = ''J100'', part_number = ''P-7'',
      comments = None, job_qty = Fin 10, bal_qty = Fin 4, code = ''A'',
      prod_date = ''2024-09-30'', est_compl_date = Some ''2024-10-01'', and_on = Some ''x'',
      m_pc = Some (Fin (3 / 2)), prod_hr = Some (Fin 2), report_start_date = ''2024-09-27'',
      report_end_date = ''2024-09-30'', report_department = ''Assembly'',
      report_creation_datetime = ''2024-09-27 15:59:22'', file_name = fname,
      processing_status = SUCCESS, upload_date = now\<rparr>"

definition example_stored :: "string \<Rightarrow> string \<Rightarrow> table_row" where
  "example_stored fname now =
     [(''file_type'', SqlText ''Assy''), (''work_cell'', SqlText ''WC1''),
      (''job_number'', SqlText ''J100''), (''part_number'', SqlText ''P-7''),
      (''comments'', SqlNull), (''job_qty'', SqlReal (Fin 10)),
      (''bal_qty'', SqlReal (Fin 4)), (''code'', SqlText ''A''),
      (''prod_date'', SqlText ''2024-09-30''), (''est_compl_date'', SqlText ''2024-10-01''),
      (''and_on'', SqlText ''x''), (''m_pc'', SqlReal (Fin (3 / 2))),
      (''prod_hr'', SqlReal (Fin 2)), (''report_start_date'', SqlText ''2024-09-27''),
      (''report_end_date'', SqlText ''2024-09-30''), (''report_department'', SqlText ''Assembly''),
      (''report_creation_datetime'', SqlText ''2024-09-27 15:59:22''),
      (''upload_date'', SqlText fname), (''file_name'', SqlText ''success''),
      (''processing_status'', SqlText now)]"

text \<open>
  The columns of \<open>job_qty\<close>, \<open>bal_qty\<close>, \<open>m_pc\<close> and \<open>prod_hr\<close> in each layout.
\<close>

fun quantity_columns :: "processor \<Rightarrow> nat list" where
  "quantity_columns AssyFileProcessor = [22, 23, 28, 29]"
| "quantity_columns FabcutFileProcessor = [19, 20, 23, 24]"
| "quantity_columns LPFileProcessor = [22, 23, 26, 27]"








section \<open>Exceptions and indexing\<close>

lemma then_exn_Inr: "then_exn x f = Inr y \<longleftrightarrow> (\<exists>v. x = Inr v \<and> f v = Inr y)"
  by (cases x) (auto simp: then_exn_def)

lemma then_exn_simps [simp]: "then_exn (Inl e) f = Inl e" "then_exn (Inr v) f = f v"
  by (simp_all add: then_exn_def)

lemma index_simps: "i < length xs \<Longrightarrow> index xs i = Inr (xs ! i)"
  "\<not> i < length xs \<Longrightarrow> index xs i = Inl IndexError"
  by (simp_all add: index_def)

section \<open>The date normalizer\<close>

lemma strptime_raises_ValueError: "strptime s f = Inl e \<Longrightarrow> e = ValueError"
  by (auto simp: strptime_def Let_def split: option.splits if_splits prod.splits)

lemma strptime_valid:
  "strptime s f = Inr dt \<Longrightarrow>
     valid_date (dt_year dt) (dt_month dt) (dt_day dt) \<and> dt_second dt \<le> 59"
  by (auto simp: strptime_def Let_def split: option.splits if_splits prod.splits)

lemma digit_chr_props:
  "k < 10 \<Longrightarrow>
     isdigit (digit_chr k) \<and> \<not> py_isspace (digit_chr k) \<and> digit_val (digit_chr k) = k"
  apply (simp add: isdigit_def digit_chr_def py_isspace_def digit_val_def)
  apply (simp add: less_Suc_eq numeral_eq_Suc)
  apply auto
  done

lemma pad4_arith:
  fixes y :: nat
  assumes y: "y < 10000"
  shows "10 * (10 * (10 * (y div 1000 mod 10) + y div 100 mod 10) + y div 10 mod 10)
           + y mod 10 = y"
proof -
  have a: "y div 1000 mod 10 = y div 100 div 10" using y by (simp add: div_mult2_eq)
  have e2: "y div 100 = y div 10 div 10" by (simp add: div_mult2_eq)
  have s1: "10 * (y div 10) + y mod 10 = y" by (rule mult_div_mod_eq)
  have s2: "10 * (y div 10 div 10) + y div 10 mod 10 = y div 10" by (rule mult_div_mod_eq)
  have s3: "10 * (y div 100 div 10) + y div 100 mod 10 = y div 100" by (rule mult_div_mod_eq)
  have "10 * (10 * (10 * (y div 1000 mod 10) + y div 100 mod 10) + y div 10 mod 10) + y mod 10
      = 10 * (10 * (10 * (y div 100 div 10) + y div 100 mod 10) + y div 10 mod 10) + y mod 10"
    by (simp only: a)
  also have "\<dots> = 10 * (10 * (y div 100) + y div 10 mod 10) + y mod 10"
    by (simp only: s3)
  also have "\<dots> = 10 * (10 * (y div 10 div 10) + y div 10 mod 10) + y mod 10"
    by (simp only: e2[symmetric])
  also have "\<dots> = 10 * (y div 10) + y mod 10"
    by (simp only: s2)
  also have "\<dots> = y" by (rule s1)
  finally show ?thesis .
qed

lemma pad2_arith:
  fixes n :: nat
  assumes n: "n < 100"
  shows "10 * (n div 10 mod 10) + n mod 10 = n"
proof -
  have "n div 10 mod 10 = n div 10" using n by simp
  then show ?thesis by simp
qed

lemma int_of_digits_pad4: "y < 10000 \<Longrightarrow> int_of_digits (pad4 y) = y"
proof -
  assume y: "y < 10000"
  have d: "\<And>k. \<not> py_isspace (digit_chr (k mod 10))"
    "\<And>k. digit_val (digit_chr (k mod 10)) = k mod 10"
    using digit_chr_props by auto
  have "int_of_digits (pad4 y) =
      10 * (10 * (10 * (y div 1000 mod 10) + y div 100 mod 10) + y div 10 mod 10) + y mod 10"
    by (simp add: int_of_digits_def pad4_def strip_def d)
  then show ?thesis by (simp only: pad4_arith[OF y])
qed

lemma int_of_digits_pad2: "n < 100 \<Longrightarrow> int_of_digits (pad2 n) = n"
proof -
  assume n: "n < 100"
  have d: "\<And>k. \<not> py_isspace (digit_chr (k mod 10))"
    "\<And>k. digit_val (digit_chr (k mod 10)) = k mod 10"
    using digit_chr_props by auto
  have "int_of_digits (pad2 n) = 10 * (n div 10 mod 10) + n mod 10"
    by (simp add: int_of_digits_def pad2_def strip_def d)
  then show ?thesis by (simp only: pad2_arith[OF n])
qed

lemma days_in_month_le: "days_in_month y m \<le> 31"
  by (simp add: days_in_month_def)

text \<open>A valid date is printed in the shape the record model accepts.\<close>

lemma strftime_date_iso:
  assumes "valid_date (dt_year dt) (dt_month dt) (dt_day dt)"
  shows "is_iso_date (strftime dt ''%Y-%m-%d'')"
proof -
  have y: "dt_year dt < 10000" and m: "dt_month dt < 100" and d: "dt_day dt < 100"
    using assms days_in_month_le[of "dt_year dt" "dt_month dt"] by (auto simp: valid_date_def)
  have dig: "\<And>k. isdigit (digit_chr (k mod 10))" using digit_chr_props by simp
  have t4: "take 4 (strftime dt ''%Y-%m-%d'') = pad4 (dt_year dt)"
    and t2: "take 2 (drop 5 (strftime dt ''%Y-%m-%d'')) = pad2 (dt_month dt)"
    and t8: "drop 8 (strftime dt ''%Y-%m-%d'') = pad2 (dt_day dt)"
    by (simp_all add: strf_directive_def pad4_def pad2_def)
  have shape: "length (strftime dt ''%Y-%m-%d'') = 10"
    "strftime dt ''%Y-%m-%d'' ! 4 = CHR ''-''" "strftime dt ''%Y-%m-%d'' ! 7 = CHR ''-''"
    by (simp_all add: strf_directive_def pad4_def pad2_def)
  have digs: "list_all isdigit (pad4 (dt_year dt))" "list_all isdigit (pad2 (dt_month dt))"
    "list_all isdigit (pad2 (dt_day dt))"
    by (simp_all add: pad4_def pad2_def dig)
  show ?thesis
    unfolding is_iso_date_def t4 t2 t8
    using assms shape digs
    by (simp add: int_of_digits_pad4[OF y] int_of_digits_pad2[OF m] int_of_digits_pad2[OF d])
qed

text \<open>The format listed twice adds nothing: the loop is the first success among four.\<close>

lemma parse_date_loop_spec:
  "parse_date_loop s date_formats = Inr (first_parsing s spec_date_patterns)"
  by (auto simp: date_formats_def spec_date_patterns_def split: sum.splits
      dest: strptime_raises_ValueError)

lemma parse_date_loop_iso:
  "parse_date_loop s fs = Inr (Some out) \<Longrightarrow> is_iso_date out"
proof (induction fs)
  case Nil
  then show ?case by simp
next
  case (Cons f fs)
  show ?case
  proof (cases "strptime s f")
    case (Inl e)
    with Cons show ?thesis by (simp split: if_splits)
  next
    case (Inr dt)
    with Cons.prems have "out = strftime dt ''%Y-%m-%d''" by simp
    with strptime_valid[OF Inr] strftime_date_iso show ?thesis by blast
  qed
qed

lemma parse_date_no_raise: "\<exists>r. parse_date v = Inr r"
proof -
  have "\<And>s. \<exists>r. parse_date_loop s date_formats = Inr r"
    by (simp add: parse_date_loop_spec)
  then show ?thesis
    by (cases v) (auto simp: parse_date_def Let_def)
qed

lemma parse_date_Some_iso: "parse_date v = Inr (Some out) \<Longrightarrow> is_iso_date out"
  by (cases v) (auto simp: parse_date_def Let_def split: if_splits dest: parse_date_loop_iso)

lemma parse_date_eq_spec: "parse_date v = Inr (parse_date_spec v)"
  by (cases v)
    (auto simp: parse_date_def parse_date_spec_def Let_def parse_date_loop_spec strip_def)

lemma parse_date_spec_nonempty: "parse_date_spec v = Some d \<Longrightarrow> d \<noteq> []"
proof -
  assume "parse_date_spec v = Some d"
  then have "parse_date v = Inr (Some d)" by (simp add: parse_date_eq_spec)
  then have "is_iso_date d" by (rule parse_date_Some_iso)
  then show ?thesis by (auto simp: is_iso_date_def)
qed



section \<open>The numeric normalizer\<close>

lemma startswith_paren: "startswith t ''('' \<longleftrightarrow> (t \<noteq> [] \<and> hd t = CHR ''('')"
  by (cases t) (auto simp: startswith_def)

lemma endswith_paren: "endswith t '')'' \<longleftrightarrow> (t \<noteq> [] \<and> last t = CHR '')'')"
proof (cases t rule: rev_cases)
  case Nil
  then show ?thesis by (simp add: endswith_def)
next
  case (snoc ys y)
  then show ?thesis by (auto simp: endswith_def)
qed

lemma interior_eq: "interior t = butlast (tl t)"
  by (simp add: interior_def butlast_conv_take drop_Suc numeral_2_eq_2)

text \<open>
  C5. Provided the builtin \<open>float\<close> raises nothing but ValueError on a string, the
  numeric normalizer never raises and returns what the specification describes: None
  on an input that is not a string or is empty or whitespace-only; the direct parse of
  the trimmed string when it succeeds; when it fails and the trimmed string is wrapped
  in parentheses, the negated parse of the interior; None on any other failure.
\<close>

theorem convert_to_float_spec_refines:
  assumes "\<And>s e. float_of_str s = Inl e \<Longrightarrow> e = ValueError"
  shows "convert_to_float float_of_str v = Inr (convert_to_float_spec float_of_str v)"
proof (cases v)
  case (PyStr s)
  show ?thesis
  proof (cases "strip s = []")
    case True
    with PyStr show ?thesis by (simp add: convert_to_float_def convert_to_float_spec_def)
  next
    case False
    then have ne: "s \<noteq> []" by (auto simp: strip_def)
    show ?thesis
    proof (cases "float_of_str (strip s)")
      case (Inr x)
      with PyStr False ne show ?thesis
        by (simp add: convert_to_float_def convert_to_float_spec_def)
    next
      case (Inl e)
      then have e: "e = ValueError" by (rule assms)
      have w: "(startswith (strip s) ''('' \<and> endswith (strip s) '')'') = wrapped_in_parentheses (strip s)"
        by (auto simp: startswith_paren endswith_paren wrapped_in_parentheses_def)
      show ?thesis
      proof (cases "float_of_str (butlast (tl (strip s)))")
        case (Inr y)
        with PyStr False ne Inl e w show ?thesis
          by (simp add: convert_to_float_def convert_to_float_spec_def interior_eq)
      next
        case il: (Inl e')
        then have "e' = ValueError" by (rule assms)
        with PyStr False ne Inl e w il show ?thesis
          by (simp add: convert_to_float_def convert_to_float_spec_def interior_eq)
      qed
    qed
  qed
qed (simp_all add: convert_to_float_def convert_to_float_spec_def)

lemma float_lit_raises: "float_lit s = Inl e \<Longrightarrow> e = ValueError"
  by (auto simp: float_lit_def Let_def split: if_splits)

theorem convert_to_float_witness:
  "convert_to_float float_lit (PyStr ''123'') = Inr (Some (Fin 123)) \<and>
   convert_to_float float_lit (PyStr ''(123)'') = Inr (Some (Fin (- 123))) \<and>
   convert_to_float float_lit (PyStr '''') = Inr None \<and>
   convert_to_float float_lit (PyStr ''abc'') = Inr None \<and>
   convert_to_float float_lit PyNone = Inr None"
proof -
  have s1: "convert_to_float_spec float_lit (PyStr ''123'') = Some (Fin 123)" by code_simp
  have s2: "convert_to_float_spec float_lit (PyStr ''(123)'') = Some (Fin (- 123))" by code_simp
  have s3: "convert_to_float_spec float_lit (PyStr '''') = None" by code_simp
  have s4: "convert_to_float_spec float_lit (PyStr ''abc'') = None" by code_simp
  have s5: "convert_to_float_spec float_lit PyNone = None" by code_simp
  show ?thesis
    using convert_to_float_spec_refines[of float_lit, OF float_lit_raises]
    by (simp only: s1 s2 s3 s4 s5 simp_thms)
qed

section \<open>Metadata extraction\<close>

lemma extract_metadata_spec:
  "extract_metadata file = (case spec_metadata file of Some m \<Rightarrow> Inr m | None \<Rightarrow> Inl ValueError)"
proof (cases "file")
  case Nil
  then show ?thesis by (simp add: extract_metadata_def spec_metadata_def next_row_def)
next
  case (Cons row1 rs)
  note c1 = Cons
  show ?thesis
  proof (cases "1 < length row1")
    case False
    with c1 show ?thesis
      by (simp add: extract_metadata_def spec_metadata_def next_row_def index_def
          split: list.splits)
  next
    case l1: True
    show ?thesis
    proof (cases "parse_date_spec (PyStr (row1 ! 1))")
      case None
      with c1 l1 show ?thesis
        by (simp add: extract_metadata_def spec_metadata_def next_row_def index_def
            parse_date_eq_spec split: list.splits)
    next
      case (Some d)
      then have d: "d \<noteq> []" by (rule parse_date_spec_nonempty)
      show ?thesis
      proof (cases rs)
        case Nil
        with c1 l1 Some d show ?thesis
          by (simp add: extract_metadata_def spec_metadata_def next_row_def index_def
              parse_date_eq_spec)
      next
        case (Cons row2 rest)
        with c1 l1 Some d show ?thesis
          by (simp add: extract_metadata_def spec_metadata_def next_row_def index_def
              parse_date_eq_spec)
      qed
    qed
  qed
qed

lemma spec_metadata_Some_rows:
  "spec_metadata file = Some m \<Longrightarrow> \<exists>row1 row2 rest. file = row1 # row2 # rest"
  by (auto simp: spec_metadata_def split: list.splits)

lemma process_file_returns:
  assumes "spec_metadata file = Some m"
  shows "\<exists>r. process_file float_of_str self fname clock file st = Inr r"
proof -
  from assms obtain r1 r2 rs where f: "file = r1 # r2 # rs"
    using spec_metadata_Some_rows by blast
  from assms show ?thesis
    by (cases m) (simp add: process_file_def extract_metadata_spec f next_row_def Let_def)
qed

text \<open>
  C7. Metadata extraction succeeds exactly when the file has two rows, row 1 has a cell
  at index 1 that parses as a date (the report start date) and row 2 has a non-empty
  cell at index 2 (the department); it looks at nothing beyond the first two rows. In
  every other case it raises ValueError, \<open>process_file\<close> raises it for the whole file
  and returns no summary; when it succeeds, \<open>process_file\<close> returns.
\<close>

theorem metadata_failure_is_fatal:
  "extract_metadata file =
     (case spec_metadata file of Some m \<Rightarrow> Inr m | None \<Rightarrow> Inl ValueError) \<and>
   extract_metadata (row1 # row2 # rest) = extract_metadata [row1, row2] \<and>
   (spec_metadata file = None \<longrightarrow>
      process_file float_of_str self fname clock file st = Inl ValueError) \<and>
   (\<forall>m. spec_metadata file = Some m \<longrightarrow>
      (\<exists>r. process_file float_of_str self fname clock file st = Inr r))"
proof -
  have a: "extract_metadata file =
     (case spec_metadata file of Some m \<Rightarrow> Inr m | None \<Rightarrow> Inl ValueError)"
    by (rule extract_metadata_spec)
  have b: "extract_metadata (row1 # row2 # rest) = extract_metadata [row1, row2]"
    by (simp add: extract_metadata_spec spec_metadata_def)
  have c: "spec_metadata file = None \<longrightarrow>
      process_file float_of_str self fname clock file st = Inl ValueError"
    by (simp add: process_file_def extract_metadata_spec)
  have d: "\<forall>m. spec_metadata file = Some m \<longrightarrow>
      (\<exists>r. process_file float_of_str self fname clock file st = Inr r)"
    using process_file_returns by blast
  from a b c d show ?thesis by blast
qed

theorem metadata_failure_witness:
  "process_file float_lit AssyFileProcessor ''Assy_0927.csv'' example_clock
     [[''Report'', ''not a date''], [[], [], ''Assembly'']]
     (init_summary AssyFileProcessor ''Assy_0927.csv'' ''2024-10-01 08:00:00'', []) = Inl ValueError \<and>
   process_file float_lit AssyFileProcessor ''Assy_0927.csv'' example_clock
     [[''Report'', ''27-Sep-24'']]
     (init_summary AssyFileProcessor ''Assy_0927.csv'' ''2024-10-01 08:00:00'', []) = Inl ValueError \<and>
   extract_metadata example_assy_file = Inr (''2024-09-27'', ''Assembly'') \<and>
   (\<exists>r. process_file float_lit AssyFileProcessor ''Assy_0927.csv'' example_clock
     example_assy_file
     (init_summary AssyFileProcessor ''Assy_0927.csv'' ''2024-10-01 08:00:00'', []) = Inr r)"
proof -
  have n1: "spec_metadata [[''Report'', ''not a date''], [[], [], ''Assembly'']] = None"
    by code_simp
  have n2: "spec_metadata [[''Report'', ''27-Sep-24'']] = None"
    by code_simp
  have s: "spec_metadata example_assy_file = Some (''2024-09-27'', ''Assembly'')"
    by code_simp
  show ?thesis
    using
      metadata_failure_is_fatal[of "[[''Report'', ''not a date''], [[], [], ''Assembly'']]"
        "[]" "[]" "[]" float_lit AssyFileProcessor "''Assy_0927.csv''" example_clock
        "(init_summary AssyFileProcessor ''Assy_0927.csv'' ''2024-10-01 08:00:00'', [])"]
      metadata_failure_is_fatal[of "[[''Report'', ''27-Sep-24'']]"
        "[]" "[]" "[]" float_lit AssyFileProcessor "''Assy_0927.csv''" example_clock
        "(init_summary AssyFileProcessor ''Assy_0927.csv'' ''2024-10-01 08:00:00'', [])"]
      metadata_failure_is_fatal[of example_assy_file
        "[]" "[]" "[]" float_lit AssyFileProcessor "''Assy_0927.csv''" example_clock
        "(init_summary AssyFileProcessor ''Assy_0927.csv'' ''2024-10-01 08:00:00'', [])"]
    by (simp only: n1 n2 s option.simps simp_thms)
qed

section \<open>The counters of the summary\<close>

lemma process_row_counts:
  "total_rows (fst (process_row float_of_str self fname clock rsd red dept st n row))
     = total_rows (fst st) + 1 \<and>
   outcome_sum (fst (process_row float_of_str self fname clock rsd red dept st n row))
     = outcome_sum (fst st) + 1"
  by (simp add: process_row_def Let_def outcome_sum_def split: sum.splits option.splits)

lemma process_rows_counts:
  "total_rows (fst (process_rows float_of_str self fname clock rsd red dept n rows st))
     = total_rows (fst st) + int (length rows) \<and>
   outcome_sum (fst (process_rows float_of_str self fname clock rsd red dept n rows st))
     = outcome_sum (fst st) + int (length rows)"
proof (induction rows arbitrary: n st)
  case Nil
  then show ?case by simp
next
  case (Cons row rows)
  show ?case
    using Cons.IH[of "Suc n" "process_row float_of_str self fname clock rsd red dept st n row"]
      process_row_counts[of float_of_str self fname clock rsd red dept st n row]
    by simp
qed

lemma process_file_rows:
  assumes "process_file float_of_str self fname clock file st = Inr r"
  shows "\<exists>row1 row2 rows rsd red dept. file = row1 # row2 # rows \<and>
     r = process_rows float_of_str self fname clock rsd red dept 1 rows st"
proof -
  from assms obtain m where m: "extract_metadata file = Inr m"
    by (auto simp: process_file_def then_exn_Inr)
  then have "spec_metadata file = Some m"
    by (simp add: extract_metadata_spec split: option.splits)
  then obtain r1 r2 rs where f: "file = r1 # r2 # rs"
    using spec_metadata_Some_rows by blast
  from assms m show ?thesis
    by (cases m) (auto simp: process_file_def f next_row_def Let_def)
qed

text \<open>
  C9. When \<open>process_file\<close> returns, the second pass has added one to \<open>total_rows\<close>
  and one to exactly one of the four outcome counters for every data row (every row
  after the two metadata rows). The summary \<open>__init__\<close> creates has all five counters
  at 0, so on it \<open>total_rows\<close> is the sum of \<open>successful_rows\<close>, \<open>duplicate_rows\<close>,
  \<open>error_rows\<close> and \<open>skipped_rows\<close>.
\<close>

theorem counter_partition:
  assumes "process_file float_of_str self fname clock file (s, db_conn) = Inr (s', db_conn')"
  shows "total_rows s' = total_rows s + (int (length file) - 2) \<and>
         outcome_sum s' = outcome_sum s + (int (length file) - 2) \<and>
         (s = init_summary self fname now \<longrightarrow>
            total_rows s' = successful_rows s' + duplicate_rows s' + error_rows s' + skipped_rows s')"
proof -
  from process_file_rows[OF assms] obtain row1 row2 rows rsd red dept where
    f: "file = row1 # row2 # rows" and
    r: "(s', db_conn') = process_rows float_of_str self fname clock rsd red dept 1 rows (s, db_conn)"
    by blast
  from process_rows_counts[of float_of_str self fname clock rsd red dept 1 rows "(s, db_conn)"] r[symmetric]
  have t: "total_rows s' = total_rows s + int (length rows)"
    and o: "outcome_sum s' = outcome_sum s + int (length rows)" by simp_all
  have z: "total_rows (init_summary self fname now) = 0" "outcome_sum (init_summary self fname now) = 0"
    by (simp_all add: init_summary_def outcome_sum_def)
  from t o z f show ?thesis by (auto simp: outcome_sum_def)
qed

theorem counter_partition_witness:
  "\<exists>s' db_conn'.
     process_file float_lit AssyFileProcessor ''Assy_0927.csv'' example_clock example_assy_file
       (init_summary AssyFileProcessor ''Assy_0927.csv'' ''2024-10-01 08:00:00'', [])
       = Inr (s', db_conn') \<and>
     total_rows s' = 2 \<and>
     total_rows s' = successful_rows s' + duplicate_rows s' + error_rows s' + skipped_rows s'"
proof -
  have "spec_metadata example_assy_file = Some (''2024-09-27'', ''Assembly'')"
    by code_simp
  from process_file_returns[OF this]
  obtain s' db_conn' where r:
    "process_file float_lit AssyFileProcessor ''Assy_0927.csv'' example_clock example_assy_file
       (init_summary AssyFileProcessor ''Assy_0927.csv'' ''2024-10-01 08:00:00'', [])
       = Inr (s', db_conn')"
    by fastforce
  have l: "int (length example_assy_file) - 2 = 2" by (simp add: example_assy_file_def)
  have z: "total_rows (init_summary AssyFileProcessor ''Assy_0927.csv'' ''2024-10-01 08:00:00'') = 0"
    by (simp add: init_summary_def)
  from counter_partition[OF r, of "''2024-10-01 08:00:00''"] l z r show ?thesis by simp
qed

section \<open>Short rows\<close>

text \<open>
  C10. A data row with no cell at the first index of its layout's blank-check range
  (fewer than 21 cells for Assy, 18 for Fabcut, 20 for LP) is classified blank whatever
  its cells hold, and the second pass counts it in \<open>skipped_rows\<close> (and \<open>total_rows\<close>),
  not in \<open>error_rows\<close>, leaving the table as it was.
\<close>

theorem short_row_is_skipped:
  assumes "length row \<le> blank_range_start self"
  shows "row_is_blank self row \<and>
     process_row float_of_str self fname clock rsd red dept (s, db_conn) n row =
       (s\<lparr>total_rows := total_rows s + 1, skipped_rows := skipped_rows s + 1\<rparr>, db_conn)"
proof -
  have b: "row_is_blank self row"
    using assms by (cases self) (simp_all add: slice_def)
  have g: "get_report_creation_datetime self row = Inr None"
    using assms
    by (cases self) (simp_all add: get_report_creation_datetime_def index_def except_IndexError_def)
  have m: "\<And>now rcd. map_row_to_data float_of_str self fname now row rsd red dept rcd = Inr None"
    using b by (cases self) simp_all
  show ?thesis using b by (simp add: process_row_def g m)
qed


theorem short_row_witness:
  "length [''WC1'', ''not blank'', ''30-Sep-24''] \<le> blank_range_start FabcutFileProcessor \<and>
   row_is_blank FabcutFileProcessor [''WC1'', ''not blank'', ''30-Sep-24''] \<and>
   process_row float_lit FabcutFileProcessor ''Fabcut_0927.csv'' example_clock ''2024-09-27''
     ''2024-09-30'' ''Cutting''
     (init_summary FabcutFileProcessor ''Fabcut_0927.csv'' ''2024-10-01 08:00:00'', []) 1
     [''WC1'', ''not blank'', ''30-Sep-24''] =
   ((init_summary FabcutFileProcessor ''Fabcut_0927.csv'' ''2024-10-01 08:00:00'')
      \<lparr>total_rows := 1, skipped_rows := 1\<rparr>, [])"
proof -
  have l: "length [''WC1'', ''not blank'', ''30-Sep-24''] \<le> blank_range_start FabcutFileProcessor"
    by simp
  from short_row_is_skipped[OF l] l show ?thesis
    by (simp add: init_summary_def)
qed

section \<open>The stored file type and the insert\<close>

lemma stored_file_type_is_member_value:
  "column (model_dump d) ''file_type'' = SqlText (FileType_value (file_type d))"
  by (simp add: column_def model_dump_def)

text \<open>
  C8. \<open>FileType.SEWDC.db_value\<close> is \<open>DC-Sew\<close> and the other four file types have
  their display value as storage value. But the record model's \<open>file_type\<close> field is
  a \<open>FileType\<close>: the storage value \<open>DC-Sew\<close>, which the processors pass to the
  constructor, is no member's value, so the constructor raises a validation error
  whatever the other arguments are; and the \<open>file_type\<close> a record holds is stored as
  the member's own value, which is never \<open>DC-Sew\<close>.
\<close>

theorem sewdc_db_value_fails_validation:
  "db_value SEWDC = ''DC-Sew'' \<and> FileType_value SEWDC = ''SEW-DC'' \<and>
   db_value ASSY = ''Assy'' \<and> db_value FABCUT = ''Fabcut'' \<and> db_value LP = ''LP'' \<and>
   db_value SEWFB = ''SEW-FB'' \<and>
   enum_field (db_value SEWDC) = Inl ValidationError \<and>
   DispatchDataCreate_init (db_value SEWDC) wc jn pn cm jq bq cd pd ecd ao mp ph rsd red dep
     rcd fn st now = Inl ValidationError \<and>
   column (model_dump d) ''file_type'' \<noteq> SqlText ''DC-Sew''"
proof -
  have e: "enum_field (db_value SEWDC) = Inl ValidationError"
    by (simp add: enum_field_def db_value_def FileType_of_value_def)
  have "FileType_value (file_type d) \<noteq> ''DC-Sew''" by (cases "file_type d") simp_all
  with e show ?thesis
    by (simp add: DispatchDataCreate_init_def db_value_def stored_file_type_is_member_value)
qed

text \<open>
  Whatever the record, the row the insert builds has the file's name in the column
  \<open>upload_date\<close>, the status in \<open>file_name\<close> and the timestamp in
  \<open>processing_status\<close>.
\<close>

lemma inserted_row_columns:
  "column (zip insert_columns (map snd (model_dump d))) ''upload_date'' = SqlText (file_name d) \<and>
   column (zip insert_columns (map snd (model_dump d))) ''file_name'' =
     SqlText (ProcessingStatus_value (processing_status d)) \<and>
   column (zip insert_columns (map snd (model_dump d))) ''processing_status'' =
     SqlText (upload_date d)"
  by (simp add: column_def insert_columns_def model_dump_def)

section \<open>The example file, evaluated\<close>

lemma example_assy_cells:
  "length example_assy_row = 31"
  "example_assy_row ! 19 = ''WC1''" "example_assy_row ! 20 = ''J100''"
  "example_assy_row ! 21 = ''P-7''" "example_assy_row ! 22 = ''10''"
  "example_assy_row ! 23 = ''4''" "example_assy_row ! 24 = ''A''"
  "example_assy_row ! 25 = ''30-Sep-24''" "example_assy_row ! 26 = ''1-Oct-24''"
  "example_assy_row ! 27 = ''x''" "example_assy_row ! 28 = ''1.5''"
  "example_assy_row ! 29 = ''2''"
  "example_assy_row ! 30 = ''Printed on 9/27/2024 /  3:59:22PM''"
  by (simp_all add: example_assy_row_def nth_append)

lemma example_dates:
  "parse_date (PyStr ''27-Sep-24'') = Inr (Some ''2024-09-27'')"
  "parse_date (PyStr ''30-Sep-24'') = Inr (Some ''2024-09-30'')"
  "parse_date (PyStr ''1-Oct-24'') = Inr (Some ''2024-10-01'')"
  "parse_datetime (PyStr ''Printed on 9/27/2024 /  3:59:22PM'') = Inr (Some ''2024-09-27 15:59:22'')"
  by code_simp+

lemma example_floats:
  "convert_to_float float_lit (PyStr ''10'') = Inr (Some (Fin 10))"
  "convert_to_float float_lit (PyStr ''4'') = Inr (Some (Fin 4))"
  "convert_to_float float_lit (PyStr ''1.5'') = Inr (Some (Fin (3 / 2)))"
  "convert_to_float float_lit (PyStr ''2'') = Inr (Some (Fin 2))"
  "convert_to_float float_lit (PyStr ''(10)'') = Inr (Some (Fin (- 10)))"
  by code_simp+

lemma example_iso:
  "is_iso_date ''2024-09-27''" "is_iso_date ''2024-09-30''" "is_iso_date ''2024-10-01''"
  "is_iso_datetime ''2024-09-27 15:59:22''"
  by code_simp+

lemma example_not_blank: "\<not> row_is_blank AssyFileProcessor example_assy_row"
  by code_simp

lemma example_map_row:
  "map_row_to_data float_lit AssyFileProcessor fname now example_assy_row ''2024-09-27''
     ''2024-09-30'' ''Assembly'' (Some ''2024-09-27 15:59:22'') = Inr (Some (example_record fname now))"
  by (simp add: example_not_blank index_def example_assy_cells example_dates example_floats
      example_iso float_cell_def reraise_ValueError_def DispatchDataCreate_init_def
      enum_field_def db_value_def FileType_of_value_def required_float_def optional_float_def
      validate_numeric_fields_def date_field_def optional_date_field_def datetime_field_def
      example_record_def del: row_is_blank.simps)

lemma example_creation:
  "get_report_creation_datetime AssyFileProcessor example_assy_row = Inr (Some ''2024-09-27 15:59:22'')"
  by (simp add: get_report_creation_datetime_def index_def example_assy_cells example_dates
      except_IndexError_def)

lemma example_model_dump:
  "zip insert_columns (map snd (model_dump (example_record fname now))) = example_stored fname now"
  by (simp add: insert_columns_def model_dump_def example_record_def example_stored_def
      bind_float_def bind_opt_float_def bind_opt_text_def)

lemma example_insert:
  "insert_data db_conn (example_record fname now) = Inr (db_conn @ [example_stored fname now])"
  by (simp add: insert_data_def example_model_dump Let_def)
     (simp add: example_stored_def not_null_columns_def column_def)

lemma example_exists:
  "row_exists [example_stored fname now] (model_dump (example_record fname' now'))"
  by (simp add: row_exists_def example_stored_def model_dump_def example_record_def
      key_columns_def column_def sql_eq_def bind_float_def bind_opt_float_def bind_opt_text_def)

lemma example_not_exists: "\<not> row_exists [] data"
  by (simp add: row_exists_def)

lemma example_first_pass:
  "first_pass AssyFileProcessor [example_assy_row, example_assy_row] = Some ''2024-09-30''"
  by (simp add: first_pass_def first_pass_step_def get_prod_date_def index_def
      example_assy_cells example_dates except_IndexError_def)

lemma example_metadata:
  "extract_metadata example_assy_file = Inr (''2024-09-27'', ''Assembly'')"
  by (simp add: extract_metadata_def example_assy_file_def next_row_def index_def example_dates)

lemma example_process_file:
  "process_file float_lit AssyFileProcessor fname clock example_assy_file (s, []) =
     Inr (s\<lparr>total_rows := total_rows s + 2, successful_rows := successful_rows s + 1,
            duplicate_rows := duplicate_rows s + 1\<rparr>, [example_stored fname (clock 1)])"
  by (simp add: process_file_def example_metadata)
     (simp add: example_assy_file_def next_row_def example_first_pass or_start_date_def
        process_row_def example_creation example_map_row example_insert example_exists
        example_not_exists del: map_row_to_data.simps)

text \<open>
  C2. The insert binds the values of \<open>model_dump()\<close> by position, and the model ends
  with \<open>file_name\<close>, \<open>processing_status\<close>, \<open>upload_date\<close> where the column list ends
  with \<open>upload_date\<close>, \<open>file_name\<close>, \<open>processing_status\<close>. Ingesting the example file
  (name \<open>Assy_0927.csv\<close>, clock at \<open>2024-10-01 08:00:00\<close>) into an empty table stores
  one record whose \<open>upload_date\<close> column holds the file's name, whose \<open>file_name\<close>
  column holds the status and whose \<open>processing_status\<close> column holds the timestamp.
\<close>

theorem insert_misplaces_last_three_columns:
  "process_file float_lit AssyFileProcessor ''Assy_0927.csv'' example_clock example_assy_file
     (init_summary AssyFileProcessor ''Assy_0927.csv'' ''2024-10-01 08:00:00'', []) =
   Inr ((init_summary AssyFileProcessor ''Assy_0927.csv'' ''2024-10-01 08:00:00'')
          \<lparr>total_rows := 2, successful_rows := 1, duplicate_rows := 1\<rparr>,
        [example_stored ''Assy_0927.csv'' ''2024-10-01 08:00:00'']) \<and>
   column (example_stored ''Assy_0927.csv'' ''2024-10-01 08:00:00'') ''upload_date'' =
     SqlText ''Assy_0927.csv'' \<and>
   column (example_stored ''Assy_0927.csv'' ''2024-10-01 08:00:00'') ''file_name'' =
     SqlText ''success'' \<and>
   column (example_stored ''Assy_0927.csv'' ''2024-10-01 08:00:00'') ''processing_status'' =
     SqlText ''2024-10-01 08:00:00''"
  by (simp add: example_process_file example_clock_def init_summary_def)
     (simp add: example_stored_def column_def)

section \<open>Rows that fail validation\<close>

lemma reraise_ValueError_Inr [simp]: "reraise_ValueError x = Inr v \<longleftrightarrow> x = Inr v"
  by (cases x) (simp_all add: reraise_ValueError_def)

lemma DispatchDataCreate_init_cases:
  "DispatchDataCreate_init ft wc jn pn cm jq bq cd pd ecd ao mp ph rsd red dep rcd fn st now =
    (case (FileType_of_value ft, jq, bq, rcd) of
       (Some m, Some x, Some y, Some z) \<Rightarrow>
         if \<not> float_lt0 x \<and> \<not> float_lt0 y \<and> is_iso_date pd \<and>
            (case ecd of None \<Rightarrow> True | Some e \<Rightarrow> is_iso_date e) \<and>
            (case mp of None \<Rightarrow> True | Some v \<Rightarrow> \<not> float_lt0 v) \<and>
            (case ph of None \<Rightarrow> True | Some v \<Rightarrow> \<not> float_lt0 v) \<and>
            is_iso_date rsd \<and> is_iso_date red \<and> is_iso_datetime z
         then Inr \<lparr>file_type = m, work_cell = wc, job_number = jn, part_number = pn,
                  comments = cm, job_qty = x, bal_qty = y, code = cd, prod_date = pd,
                  est_compl_date = ecd, and_on = ao, m_pc = mp, prod_hr = ph,
                  report_start_date = rsd, report_end_date = red, report_department = dep,
                  report_creation_datetime = z, file_name = fn, processing_status = st,
                  upload_date = now\<rparr>
         else Inl ValidationError
     | _ \<Rightarrow> Inl ValidationError)"
  by (simp add: DispatchDataCreate_init_def enum_field_def required_float_def
      optional_float_def validate_numeric_fields_def date_field_def optional_date_field_def
      datetime_field_def split: option.splits)

lemma init_Inr_facts:
  assumes "DispatchDataCreate_init ft wc jn pn cm jq bq cd pd ecd ao mp ph rsd red dep rcd fn st now
             = Inr data"
  shows "(\<forall>v. jq = Some v \<longrightarrow> \<not> float_lt0 v) \<and> (\<forall>v. bq = Some v \<longrightarrow> \<not> float_lt0 v) \<and>
         (\<forall>v. mp = Some v \<longrightarrow> \<not> float_lt0 v) \<and> (\<forall>v. ph = Some v \<longrightarrow> \<not> float_lt0 v) \<and>
         report_end_date data = red"
  using assms
  by (auto simp: DispatchDataCreate_init_cases split: option.splits if_splits)

lemma float_cell_if_Some:
  assumes "c < length row" "convert_to_float fl (PyStr (row ! c)) = Inr (Some v)"
  shows "float_cell_if fl row c = Inr (Some v)" "float_cell fl row c = Inr (Some v)"
proof -
  have "row ! c \<noteq> []" using assms(2) by (auto simp: convert_to_float_def)
  then show "float_cell_if fl row c = Inr (Some v)"
    using assms by (simp add: float_cell_if_def float_cell_def index_def)
  show "float_cell fl row c = Inr (Some v)"
    using assms by (simp add: float_cell_def index_def)
qed

lemma case_prod_date_Some [simp]:
  "(case v of None \<Rightarrow> Inr None | Some pd \<Rightarrow> if pd = [] then Inr None else f pd) = Inr (Some data)
     \<longleftrightarrow> (\<exists>pd. v = Some pd \<and> pd \<noteq> [] \<and> f pd = Inr (Some data))"
  by (cases v) auto

lemma case_prod_date_None [simp]:
  "(case v of None \<Rightarrow> Inr None | Some pd \<Rightarrow> if pd = [] then Inr None else f pd) = Inr None
     \<longleftrightarrow> (v = None \<or> (\<exists>pd. v = Some pd \<and> (pd = [] \<or> f pd = Inr None)))"
  by (cases v) auto

lemma map_row_Some_nonneg:
  assumes "map_row_to_data fl P fname now row rsd red dept rcd = Inr (Some data)"
    and "c \<in> set (quantity_columns P)" and "c < length row"
    and "convert_to_float fl (PyStr (row ! c)) = Inr (Some v)"
  shows "\<not> float_lt0 v"
proof -
  note fc = float_cell_if_Some[OF assms(3,4)]
  show ?thesis
  proof (cases P)
    case AssyFileProcessor
    with assms(1) obtain jq bq mp ph wc jn pn cm cd pd ecd ao where
      i: "DispatchDataCreate_init (db_value ASSY) wc jn pn cm jq bq cd pd ecd ao mp ph rsd red dept
            rcd fname SUCCESS now = Inr data"
      and q: "float_cell fl row 22 = Inr jq" "float_cell fl row 23 = Inr bq"
        "float_cell fl row 28 = Inr mp" "float_cell fl row 29 = Inr ph"
      by (auto simp: then_exn_Inr split: if_splits simp del: row_is_blank.simps)
    from assms(2) AssyFileProcessor fc q init_Inr_facts[OF i] show ?thesis by auto
  next
    case FabcutFileProcessor
    with assms(1) obtain jq bq mp ph wc jn pn cm cd pd ecd ao where
      i: "DispatchDataCreate_init (db_value FABCUT) wc jn pn cm jq bq cd pd ecd ao mp ph rsd red dept
            rcd fname SUCCESS now = Inr data"
      and q: "float_cell fl row 19 = Inr jq" "float_cell fl row 20 = Inr bq"
        "float_cell_if fl row 23 = Inr mp" "float_cell_if fl row 24 = Inr ph"
      by (auto simp: then_exn_Inr split: if_splits simp del: row_is_blank.simps)
    from assms(2) FabcutFileProcessor fc q init_Inr_facts[OF i] show ?thesis by auto
  next
    case LPFileProcessor
    with assms(1) obtain jq bq mp ph wc jn pn cm cd pd ecd ao where
      i: "DispatchDataCreate_init (db_value LP) wc jn pn cm jq bq cd pd ecd ao mp ph rsd red dept
            rcd fname SUCCESS now = Inr data"
      and q: "float_cell fl row 22 = Inr jq" "float_cell fl row 23 = Inr bq"
        "float_cell_if fl row 26 = Inr mp" "float_cell_if fl row 27 = Inr ph"
      by (auto simp: then_exn_Inr split: if_splits simp del: row_is_blank.simps)
    from assms(2) LPFileProcessor fc q init_Inr_facts[OF i] show ?thesis by auto
  qed
qed

lemma map_row_not_skipped:
  assumes "\<not> row_is_blank P row" and "prod_date_column P < length row"
    and "parse_date (PyStr (row ! prod_date_column P)) = Inr (Some d)"
  shows "map_row_to_data fl P fname now row rsd red dept rcd \<noteq> Inr None"
proof -
  have d: "d \<noteq> []" using parse_date_Some_iso[OF assms(3)] by (auto simp: is_iso_date_def)
  show ?thesis
  proof (cases P)
    case AssyFileProcessor
    with assms d show ?thesis
      by (auto simp: then_exn_Inr index_def simp del: row_is_blank.simps)
  next
    case FabcutFileProcessor
    with assms d show ?thesis
      by (auto simp: then_exn_Inr index_def simp del: row_is_blank.simps)
  next
    case LPFileProcessor
    with assms d show ?thesis
      by (auto simp: then_exn_Inr index_def simp del: row_is_blank.simps)
  qed
qed

text \<open>
  C6. A non-blank data row whose production date parses and one of whose quantity
  cells (\<open>job_qty\<close>, \<open>bal_qty\<close>, \<open>m_pc\<close>, \<open>prod_hr\<close>) normalizes to a negative value
  never yields a record: building it raises. The second pass counts the row in
  \<open>total_rows\<close> and \<open>error_rows\<close>, leaves the table unchanged, and goes on with the
  rows that follow. The record constructor itself refuses a negative value in each of
  the four fields with a validation error.
\<close>

theorem negative_quantity_is_error_row:
  assumes "\<not> row_is_blank self row"
    and "prod_date_column self < length row"
    and "parse_date (PyStr (row ! prod_date_column self)) = Inr (Some d)"
    and "c \<in> set (quantity_columns self)" and "c < length row"
    and "convert_to_float float_of_str (PyStr (row ! c)) = Inr (Some v)"
    and "float_lt0 v"
  shows "process_row float_of_str self fname clock rsd red dept (s, db_conn) n row =
           (s\<lparr>total_rows := total_rows s + 1, error_rows := error_rows s + 1\<rparr>, db_conn) \<and>
         process_rows float_of_str self fname clock rsd red dept n (row # rows) (s, db_conn) =
           process_rows float_of_str self fname clock rsd red dept (Suc n) rows
             (s\<lparr>total_rows := total_rows s + 1, error_rows := error_rows s + 1\<rparr>, db_conn) \<and>
         DispatchDataCreate_init ft wc jn pn cm (Some v) bq cd pd ecd ao mp ph sd ed dep rcd fn st
           now = Inl ValidationError \<and>
         DispatchDataCreate_init ft wc jn pn cm jq (Some v) cd pd ecd ao mp ph sd ed dep rcd fn st
           now = Inl ValidationError \<and>
         DispatchDataCreate_init ft wc jn pn cm jq bq cd pd ecd ao (Some v) ph sd ed dep rcd fn st
           now = Inl ValidationError \<and>
         DispatchDataCreate_init ft wc jn pn cm jq bq cd pd ecd ao mp (Some v) sd ed dep rcd fn st
           now = Inl ValidationError"
proof -
  have val: "DispatchDataCreate_init ft wc jn pn cm (Some v) bq cd pd ecd ao mp ph sd ed dep rcd
               fn st now = Inl ValidationError"
    "DispatchDataCreate_init ft wc jn pn cm jq (Some v) cd pd ecd ao mp ph sd ed dep rcd fn st
       now = Inl ValidationError"
    "DispatchDataCreate_init ft wc jn pn cm jq bq cd pd ecd ao (Some v) ph sd ed dep rcd fn st
       now = Inl ValidationError"
    "DispatchDataCreate_init ft wc jn pn cm jq bq cd pd ecd ao mp (Some v) sd ed dep rcd fn st
       now = Inl ValidationError"
    using assms(7) by (simp_all add: DispatchDataCreate_init_cases split: option.splits)
  have "\<exists>e. then_exn (get_report_creation_datetime self row) (\<lambda>creation_datetime.
               map_row_to_data float_of_str self fname (clock n) row rsd red dept
                 creation_datetime) = Inl e"
  proof (cases "get_report_creation_datetime self row")
    case (Inl e)
    then show ?thesis by simp
  next
    case (Inr rcd)
    show ?thesis
    proof (cases "map_row_to_data float_of_str self fname (clock n) row rsd red dept rcd")
      case (Inl e)
      with Inr show ?thesis by simp
    next
      case r: (Inr res)
      show ?thesis
      proof (cases res)
        case None
        with r map_row_not_skipped[OF assms(1-3)] show ?thesis by blast
      next
        case (Some data)
        with r map_row_Some_nonneg[OF _ assms(4-6)] assms(7) show ?thesis by blast
      qed
    qed
  qed
  then obtain e where "then_exn (get_report_creation_datetime self row) (\<lambda>creation_datetime.
               map_row_to_data float_of_str self fname (clock n) row rsd red dept
                 creation_datetime) = Inl e" by blast
  then have "process_row float_of_str self fname clock rsd red dept (s, db_conn) n row =
           (s\<lparr>total_rows := total_rows s + 1, error_rows := error_rows s + 1\<rparr>, db_conn)"
    by (simp add: process_row_def del: map_row_to_data.simps)
  with val show ?thesis by simp
qed

theorem negative_quantity_witness:
  "process_row float_lit AssyFileProcessor ''Assy_0927.csv'' example_clock ''2024-09-27''
     ''2024-09-30'' ''Assembly''
     (init_summary AssyFileProcessor ''Assy_0927.csv'' ''2024-10-01 08:00:00'', []) 1
     (example_assy_row[22 := ''(10)'']) =
   ((init_summary AssyFileProcessor ''Assy_0927.csv'' ''2024-10-01 08:00:00'')
      \<lparr>total_rows := 1, error_rows := 1\<rparr>, [])"
proof -
  have b: "\<not> row_is_blank AssyFileProcessor (example_assy_row[22 := ''(10)''])"
    by code_simp
  have l: "prod_date_column AssyFileProcessor < length (example_assy_row[22 := ''(10)''])"
    by (simp add: example_assy_cells)
  have p: "parse_date (PyStr (example_assy_row[22 := ''(10)''] ! prod_date_column AssyFileProcessor))
             = Inr (Some ''2024-09-30'')"
    by (simp add: example_assy_cells example_dates)
  have c: "22 \<in> set (quantity_columns AssyFileProcessor)" by simp
  have l2: "22 < length (example_assy_row[22 := ''(10)''])" by (simp add: example_assy_cells)
  have f: "convert_to_float float_lit (PyStr (example_assy_row[22 := ''(10)''] ! 22))
             = Inr (Some (Fin (- 10)))"
    by (simp add: example_assy_cells example_floats)
  have n: "float_lt0 (Fin (- 10))" by simp
  from negative_quantity_is_error_row[OF b l p c l2 f n] show ?thesis
    by (simp add: init_summary_def)
qed

section \<open>The report end date\<close>
























section \<open>Ingesting a file twice\<close>








lemma row_exists_iff:
  "row_exists db_conn data \<longleftrightarrow>
     (\<exists>r \<in> set db_conn. list_all (\<lambda>c. sql_eq (column r c) (column data c)) key_columns)"
  by (auto simp: row_exists_def filter_empty_conv)















text \<open>
  The layouts without an estimated completion date never find a duplicate: the key
  of every record they build has a NULL, and the comparison with NULL is not true.
\<close>

lemma null_key_never_exists:
  assumes "c \<in> set key_columns" and "column data c = SqlNull"
  shows "\<not> row_exists D data"
  using assms by (auto simp: row_exists_iff list_all_iff sql_eq_def)

lemma fabcut_lp_record_has_null_key:
  assumes "map_row_to_data fl P fname now row rsd red dept rcd = Inr (Some data)"
    and "P \<noteq> AssyFileProcessor"
  shows "column (model_dump data) ''est_compl_date'' = SqlNull"
proof (cases P)
  case AssyFileProcessor
  with assms(2) show ?thesis by simp
next
  case FabcutFileProcessor
  with assms(1) obtain jq bq mp ph wc jn pn cm cd pd ao where
    "DispatchDataCreate_init (db_value FABCUT) wc jn pn cm jq bq cd pd None ao mp ph rsd red dept
       rcd fname SUCCESS now = Inr data"
    by (auto simp: then_exn_Inr split: if_splits simp del: row_is_blank.simps)
  then show ?thesis
    by (auto simp: DispatchDataCreate_init_cases column_def model_dump_def bind_opt_text_def
        split: option.splits if_splits)
next
  case LPFileProcessor
  with assms(1) obtain jq bq mp ph wc jn pn cm cd pd ao where
    "DispatchDataCreate_init (db_value LP) wc jn pn cm jq bq cd pd None ao mp ph rsd red dept
       rcd fname SUCCESS now = Inr data"
    by (auto simp: then_exn_Inr split: if_splits simp del: row_is_blank.simps)
  then show ?thesis
    by (auto simp: DispatchDataCreate_init_cases column_def model_dump_def bind_opt_text_def
        split: option.splits if_splits)
qed

lemma fabcut_lp_never_duplicate:
  assumes "P \<noteq> AssyFileProcessor"
  shows "duplicate_rows (fst (process_row fl P fname clock rsd red dept (s, D) n row)) =
           duplicate_rows s"
proof (cases "then_exn (get_report_creation_datetime P row) (\<lambda>creation_datetime.
               map_row_to_data fl P fname (clock n) row rsd red dept creation_datetime)")
  case (Inl e)
  then show ?thesis by (simp add: process_row_def del: map_row_to_data.simps)
next
  case (Inr res)
  show ?thesis
  proof (cases res)
    case None
    with Inr show ?thesis by (simp add: process_row_def del: map_row_to_data.simps)
  next
    case (Some data)
    from Inr Some obtain rcd where
      "map_row_to_data fl P fname (clock n) row rsd red dept rcd = Inr (Some data)"
      by (auto simp: then_exn_Inr simp del: map_row_to_data.simps)
    from fabcut_lp_record_has_null_key[OF this assms]
    have "\<not> row_exists D (model_dump data)"
      by (intro null_key_never_exists[of "''est_compl_date''"]) (simp_all add: key_columns_def)
    with Inr Some show ?thesis
      by (simp add: process_row_def Let_def split: sum.splits del: map_row_to_data.simps)
  qed
qed

end
